theory Spec2Isabelle
  imports Complex_Main
begin

section \<open>Numeric values and series\<close>

text \<open>
  A pandas float column is modelled as a list of optional reals: \<open>None\<close> is the missing
  value NaN, \<open>Some r\<close> a number. Arithmetic is exact: the rounding of binary64, overflow to
  an infinity and the sign of zero are not modelled. Infinite values only arise from the one
  division of \<open>add_rsi\<close>, whose results live in the type \<open>fval\<close>.

  A data frame is its index and its columns in order; a column name is looked up from the
  left, and the frames considered have numeric columns with distinct names.
\<close>

type_synonym series = "real option list"

datatype fval = Fin real | PInf | NInf | NaN

datatype error =
    NameError string
  | KeyError string
  | ValueError string
  | AttributeError string
  | PlotlyError string

datatype idx = RangeIndex nat | LabelIndex "string list"

record dataframe =
  index :: idx
  columns :: "(string \<times> series) list"

text \<open>\<open>data[column]\<close>: the column of that name, or \<open>KeyError\<close>.\<close>

definition getitem :: "dataframe \<Rightarrow> string \<Rightarrow> error + series" where
  "getitem data column =
     (case map_of (columns data) column of
        None \<Rightarrow> Inl (KeyError column)
      | Some s \<Rightarrow> Inr s)"

section \<open>Rolling windows\<close>

text \<open>
  \<open>Series.rolling(window=w)\<close> with an integer \<open>w\<close>: pandas rejects a negative window with
  \<open>ValueError\<close>; the window at position \<open>i\<close> holds the last \<open>w\<close> entries up to and including
  \<open>i\<close> (fewer at the start), and \<open>min_periods\<close> defaults to \<open>w\<close>. pandas keeps the window in
  64 bits and raises \<open>OverflowError\<close> from \<open>2^63\<close> on; the model covers the windows below that
  and says nothing true about larger ones.
\<close>

definition rolling :: "int \<Rightarrow> series \<Rightarrow> error + (nat \<times> series)" where
  "rolling window s =
     (if window < 0 then Inl (ValueError ''window must be an integer 0 or greater'')
      else Inr (nat window, s))"

definition window_at :: "nat \<Rightarrow> nat \<Rightarrow> 'a list \<Rightarrow> 'a list" where
  "window_at w i s = drop (Suc i - w) (take (Suc i) s)"

definition observations :: "series \<Rightarrow> real list" where
  "observations win = List.map_filter (\<lambda>v. v) win"

text \<open>
  \<open>.mean()\<close> of one window: NaN entries are skipped; the result is NaN unless at least
  \<open>min_periods\<close> (and at least one) observations remain.
\<close>

definition win_mean :: "nat \<Rightarrow> series \<Rightarrow> real option" where
  "win_mean minp win =
     (let obs = observations win; n = length obs
      in if minp \<le> n \<and> 0 < n then Some (sum_list obs / real n) else None)"

definition rolling_mean :: "nat \<times> series \<Rightarrow> series" where
  "rolling_mean r = (case r of (w, s) \<Rightarrow> map (\<lambda>i. win_mean w (window_at w i s)) [0..<length s])"

text \<open>
  \<open>.std()\<close> of one window: the sample standard deviation (\<open>ddof = 1\<close>) of the
  observations; NaN unless at least \<open>min_periods\<close> and more than one observation remain.
\<close>

definition win_std :: "nat \<Rightarrow> series \<Rightarrow> real option" where
  "win_std minp win =
     (let obs = observations win; n = length obs; m = sum_list obs / real n
      in if minp \<le> n \<and> 1 < n
         then Some (sqrt (sum_list (map (\<lambda>x. (x - m)\<^sup>2) obs) / real (n - 1)))
         else None)"

definition rolling_std :: "nat \<times> series \<Rightarrow> series" where
  "rolling_std r = (case r of (w, s) \<Rightarrow> map (\<lambda>i. win_std w (window_at w i s)) [0..<length s])"

section \<open>Exponentially weighted mean\<close>

text \<open>
  \<open>Series.ewm(span=span, adjust=False)\<close>: pandas rejects \<open>span < 1\<close> with \<open>ValueError\<close>,
  and turns the span into the centre of mass \<open>com = (span - 1) / 2\<close>.
\<close>

definition ewm :: "int \<Rightarrow> series \<Rightarrow> error + (real \<times> series)" where
  "ewm spn s =
     (if spn < 1 then Inl (ValueError ''span must satisfy: span >= 1'')
      else Inr ((real_of_int spn - 1) / 2, s))"

text \<open>
  \<open>.mean()\<close> with \<open>adjust=False\<close>, \<open>ignore_na=False\<close>: one pass with the smoothing factor
  \<open>alpha = 1 / (1 + com)\<close> that carries the running average \<open>weighted\<close> and the weight
  \<open>old_wt\<close> of the past. Every entry decays the weight of the past by \<open>1 - alpha\<close>; a NaN
  entry leaves the average; an observation is mixed in with the weight \<open>alpha\<close>, or with
  \<open>1 - old_wt\<close> when \<open>com\<close> is 1, and resets the weight of the past to 1. While no
  observation has been seen the output is NaN.
\<close>

fun ewm_step :: "real \<Rightarrow> real option \<times> real \<Rightarrow> real option \<Rightarrow> real option \<times> real" where
  "ewm_step com (None, old_wt) cur = (cur, old_wt)"
| "ewm_step com (Some w, old_wt) None = (Some w, old_wt * (1 - 1 / (1 + com)))"
| "ewm_step com (Some w, old_wt) (Some c) =
     (let alpha = 1 / (1 + com);
          old_wt' = old_wt * (1 - alpha);
          new_wt = (if com = 1 then 1 - old_wt' else alpha)
      in (if w \<noteq> c then Some ((old_wt' * w + new_wt * c) / (old_wt' + new_wt)) else Some w, 1))"

fun ewm_scan :: "real \<Rightarrow> real option \<times> real \<Rightarrow> series \<Rightarrow> series" where
  "ewm_scan com st [] = []"
| "ewm_scan com st (x # xs) = (let st' = ewm_step com st x in fst st' # ewm_scan com st' xs)"

fun ewm_mean :: "real \<times> series \<Rightarrow> series" where
  "ewm_mean (com, []) = []"
| "ewm_mean (com, x # xs) = x # ewm_scan com (x, 1) xs"

section \<open>Elementwise operations on series\<close>

definition opt_sub :: "real option \<Rightarrow> real option \<Rightarrow> real option" where
  "opt_sub a b = (case (a, b) of (Some x, Some y) \<Rightarrow> Some (x - y) | _ \<Rightarrow> None)"

definition opt_add :: "real option \<Rightarrow> real option \<Rightarrow> real option" where
  "opt_add a b = (case (a, b) of (Some x, Some y) \<Rightarrow> Some (x + y) | _ \<Rightarrow> None)"

definition series_sub :: "series \<Rightarrow> series \<Rightarrow> series" where
  "series_sub a b = map2 opt_sub a b"

definition series_add :: "series \<Rightarrow> series \<Rightarrow> series" where
  "series_add a b = map2 opt_add a b"

definition series_scale :: "series \<Rightarrow> real \<Rightarrow> series" where
  "series_scale a k = map (map_option (\<lambda>x. x * k)) a"

definition series_neg :: "series \<Rightarrow> series" where
  "series_neg a = map (map_option uminus) a"

text \<open>\<open>Series.diff()\<close>: NaN first, then the difference to the previous entry.\<close>

definition diff :: "series \<Rightarrow> series" where
  "diff s = map (\<lambda>i. if i = 0 then None else opt_sub (s ! i) (s ! (i - 1))) [0..<length s]"

text \<open>The comparisons \<open>delta > c\<close> and \<open>delta < c\<close>: a NaN compares false.\<close>

definition series_gt :: "series \<Rightarrow> real \<Rightarrow> bool list" where
  "series_gt s c = map (\<lambda>v. case v of None \<Rightarrow> False | Some x \<Rightarrow> c < x) s"

definition series_lt :: "series \<Rightarrow> real \<Rightarrow> bool list" where
  "series_lt s c = map (\<lambda>v. case v of None \<Rightarrow> False | Some x \<Rightarrow> x < c) s"

text \<open>\<open>s.where(cond, other)\<close>: keeps an entry where the condition holds, else \<open>other\<close>.\<close>

definition where_series :: "series \<Rightarrow> bool list \<Rightarrow> real \<Rightarrow> series" where
  "where_series s cond other = map2 (\<lambda>v c. if c then v else Some other) s cond"

section \<open>Division with infinities\<close>

text \<open>
  Float division as numpy performs it on arrays: no exception; a nonzero number over zero
  is an infinity, zero over zero is NaN. Without the sign of zero the model cannot tell which
  infinity: the average loss of \<open>add_rsi\<close> on a rising column is the negative zero in
  pandas, so its \<open>rs\<close> is \<open>-inf\<close> there and \<open>PInf\<close> here; \<open>100 - 100 / (1 + rs)\<close> is 100
  for both.
\<close>

definition of_opt :: "real option \<Rightarrow> fval" where
  "of_opt v = (case v of None \<Rightarrow> NaN | Some x \<Rightarrow> Fin x)"

fun fneg :: "fval \<Rightarrow> fval" where
  "fneg (Fin a) = Fin (- a)"
| "fneg PInf = NInf"
| "fneg NInf = PInf"
| "fneg NaN = NaN"

fun fadd :: "fval \<Rightarrow> fval \<Rightarrow> fval" where
  "fadd NaN _ = NaN"
| "fadd _ NaN = NaN"
| "fadd (Fin a) (Fin b) = Fin (a + b)"
| "fadd PInf NInf = NaN"
| "fadd NInf PInf = NaN"
| "fadd PInf _ = PInf"
| "fadd NInf _ = NInf"
| "fadd (Fin a) b = b"

definition fsub :: "fval \<Rightarrow> fval \<Rightarrow> fval" where
  "fsub a b = fadd a (fneg b)"

fun fdiv :: "fval \<Rightarrow> fval \<Rightarrow> fval" where
  "fdiv NaN _ = NaN"
| "fdiv _ NaN = NaN"
| "fdiv (Fin a) (Fin b) =
     (if b \<noteq> 0 then Fin (a / b) else if a = 0 then NaN else if 0 < a then PInf else NInf)"
| "fdiv (Fin a) _ = Fin 0"
| "fdiv PInf (Fin b) = (if b < 0 then NInf else PInf)"
| "fdiv NInf (Fin b) = (if b < 0 then PInf else NInf)"
| "fdiv _ _ = NaN"

section \<open>The indicator computations of \<open>indicators/technical.py\<close>\<close>

text \<open>Line 26 of \<open>add_sma\<close>: \<open>sma = data[column].rolling(window=period).mean()\<close>.\<close>

definition sma_series :: "dataframe \<Rightarrow> int \<Rightarrow> string \<Rightarrow> error + series" where
  "sma_series data period column =
     (case getitem data column of
        Inl e \<Rightarrow> Inl e
      | Inr s \<Rightarrow> (case rolling period s of
                   Inl e \<Rightarrow> Inl e
                 | Inr r \<Rightarrow> Inr (rolling_mean r)))"

text \<open>
  \<open>s.ewm(span=period, adjust=False).mean()\<close>, the expression \<open>add_ema\<close> uses once (line 55)
  and \<open>add_macd\<close> three times (lines 139, 140, 142).
\<close>

definition ewm_span_mean :: "int \<Rightarrow> series \<Rightarrow> error + series" where
  "ewm_span_mean period s = (case ewm period s of Inl e \<Rightarrow> Inl e | Inr r \<Rightarrow> Inr (ewm_mean r))"

definition ema_series :: "dataframe \<Rightarrow> int \<Rightarrow> string \<Rightarrow> error + series" where
  "ema_series data period column =
     (case getitem data column of
        Inl e \<Rightarrow> Inl e
      | Inr s \<Rightarrow> ewm_span_mean period s)"

text \<open>
  Lines 86 to 94 of \<open>add_rsi\<close>; the result keeps the intermediate series
  \<open>(gain, loss, rs, rsi)\<close>.
\<close>

definition rsi_series ::
  "dataframe \<Rightarrow> int \<Rightarrow> string \<Rightarrow> error + (series \<times> series \<times> fval list \<times> fval list)" where
  "rsi_series data period column =
     (case getitem data column of
        Inl e \<Rightarrow> Inl e
      | Inr s \<Rightarrow>
          (let delta = diff s
           in case rolling period (where_series delta (series_gt delta 0) 0) of
                Inl e \<Rightarrow> Inl e
              | Inr rg \<Rightarrow>
                  (let gain = rolling_mean rg
                   in case rolling period (series_neg (where_series delta (series_lt delta 0) 0)) of
                        Inl e \<Rightarrow> Inl e
                      | Inr rl \<Rightarrow>
                          (let loss = rolling_mean rl;
                               rs = map2 fdiv (map of_opt gain) (map of_opt loss);
                               rsi = map (\<lambda>r. fsub (Fin 100) (fdiv (Fin 100) (fadd (Fin 1) r))) rs
                           in Inr (gain, loss, rs, rsi)))))"

text \<open>
  Lines 139 to 143 of \<open>add_macd\<close>; the result is \<open>(macd, signal, hist)\<close>. Lines 139 and 140
  each look the column up.
\<close>

definition macd_series ::
  "dataframe \<Rightarrow> int \<Rightarrow> int \<Rightarrow> int \<Rightarrow> string \<Rightarrow> error + (series \<times> series \<times> series)" where
  "macd_series data fast_period slow_period signal_period column =
     (case getitem data column of Inl e \<Rightarrow> Inl e | Inr s1 \<Rightarrow>
     (case ewm_span_mean fast_period s1 of Inl e \<Rightarrow> Inl e | Inr exp1 \<Rightarrow>
     (case getitem data column of Inl e \<Rightarrow> Inl e | Inr s2 \<Rightarrow>
     (case ewm_span_mean slow_period s2 of Inl e \<Rightarrow> Inl e | Inr exp2 \<Rightarrow>
        (let macd = series_sub exp1 exp2
         in case ewm_span_mean signal_period macd of
              Inl e \<Rightarrow> Inl e
            | Inr signal \<Rightarrow>
                (let hist = series_sub macd signal
                 in Inr (macd, signal, hist)))))))"

text \<open>
  Lines 201 to 204 of \<open>add_bollinger_bands\<close>; the result is \<open>(ma, std, upper, lower)\<close>.
  Lines 201 and 202 each look the column up and build their own rolling window.
\<close>

definition bollinger_series ::
  "dataframe \<Rightarrow> int \<Rightarrow> real \<Rightarrow> string \<Rightarrow> error + (series \<times> series \<times> series \<times> series)" where
  "bollinger_series data period std_dev column =
     (case getitem data column of Inl e \<Rightarrow> Inl e | Inr s1 \<Rightarrow>
     (case rolling period s1 of Inl e \<Rightarrow> Inl e | Inr r1 \<Rightarrow>
     (case getitem data column of Inl e \<Rightarrow> Inl e | Inr s2 \<Rightarrow>
     (case rolling period s2 of Inl e \<Rightarrow> Inl e | Inr r2 \<Rightarrow>
        (let ma = rolling_mean r1; std = rolling_std r2;
             upper = series_add ma (series_scale std std_dev);
             lower = series_sub ma (series_scale std std_dev)
         in Inr (ma, std, upper, lower))))))"

section \<open>Figures and charts\<close>

text \<open>
  A plotly figure is a tree of properties. The model keeps the subplot grid made by
  \<open>make_subplots\<close>, the traces in the order they were added (each with the grid cell it was
  placed in, if any), the horizontal lines added as shapes, and the layout assignments.
  Of plotly's validation of property names only the rejection of a layout keyword that
  reaches into a missing axis is modelled.
\<close>

datatype pval =
    PNone
  | PBool bool
  | PNum real
  | PStr string
  | PSeries series
  | PFloats "fval list"
  | PIndex idx
  | PList "pval list"
  | PDict "(string \<times> pval) list"

record trace =
  ttype :: string
  props :: "(string \<times> pval) list"

record subplot_grid =
  nrows :: nat
  ncols :: nat
  shared_xaxes :: bool
  vertical_spacing :: real
  row_heights :: "real list"

record figure =
  grid :: "subplot_grid option"
  traces :: "(trace \<times> (nat \<times> nat) option) list"
  shapes :: "((string \<times> pval) list \<times> (nat \<times> nat) option) list"
  layout :: "(string \<times> pval) list"

definition set_prop :: "string \<Rightarrow> pval \<Rightarrow> (string \<times> pval) list \<Rightarrow> (string \<times> pval) list" where
  "set_prop k v ps = filter (\<lambda>kv. fst kv \<noteq> k) ps @ [(k, v)]"

definition go_Figure :: figure where
  "go_Figure = \<lparr>grid = None, traces = [], shapes = [], layout = []\<rparr>"

definition go_Scatter :: "(string \<times> pval) list \<Rightarrow> trace" where
  "go_Scatter kwargs = \<lparr>ttype = ''scatter'', props = kwargs\<rparr>"

definition go_Bar :: "(string \<times> pval) list \<Rightarrow> trace" where
  "go_Bar kwargs = \<lparr>ttype = ''bar'', props = kwargs\<rparr>"

definition go_Candlestick :: "(string \<times> pval) list \<Rightarrow> trace" where
  "go_Candlestick kwargs = \<lparr>ttype = ''candlestick'', props = kwargs\<rparr>"

text \<open>
  \<open>make_subplots\<close>: one height per row is required, otherwise plotly raises \<open>ValueError\<close>.
\<close>

definition make_subplots :: "nat \<Rightarrow> nat \<Rightarrow> bool \<Rightarrow> real \<Rightarrow> real list \<Rightarrow> error + figure" where
  "make_subplots rows cols shared spacing heights =
     (if length heights \<noteq> rows
      then Inl (ValueError ''row_heights must have one entry per row'')
      else Inr \<lparr>grid = Some \<lparr>nrows = rows, ncols = cols, shared_xaxes = shared,
                                vertical_spacing = spacing, row_heights = heights\<rparr>,
                 traces = [], shapes = [], layout = []\<rparr>)"

text \<open>
  A grid cell \<open>row=r, col=c\<close> can only be addressed on a figure made by \<open>make_subplots\<close>, and
  only inside its grid; plotly raises otherwise.
\<close>

definition check_cell :: "figure \<Rightarrow> (nat \<times> nat) option \<Rightarrow> error + unit" where
  "check_cell f cell =
     (case cell of
        None \<Rightarrow> Inr ()
      | Some (r, c) \<Rightarrow>
          (case grid f of
             None \<Rightarrow> Inl (PlotlyError ''figure has no subplot grid'')
           | Some g \<Rightarrow>
               if 1 \<le> r \<and> r \<le> nrows g \<and> 1 \<le> c \<and> c \<le> ncols g then Inr ()
               else Inl (PlotlyError ''(row, col) is out of range'')))"

definition add_trace :: "figure \<Rightarrow> trace \<Rightarrow> (nat \<times> nat) option \<Rightarrow> error + figure" where
  "add_trace f t cell =
     (case check_cell f cell of
        Inl e \<Rightarrow> Inl e
      | Inr _ \<Rightarrow> Inr (f\<lparr>traces := traces f @ [(t, cell)]\<rparr>))"

definition add_hline :: "figure \<Rightarrow> (string \<times> pval) list \<Rightarrow> (nat \<times> nat) option \<Rightarrow> error + figure" where
  "add_hline f kwargs cell =
     (case check_cell f cell of
        Inl e \<Rightarrow> Inl e
      | Inr _ \<Rightarrow> Inr (f\<lparr>shapes := shapes f @ [(kwargs, cell)]\<rparr>))"

text \<open>The plain assignment of layout properties, in keyword order.\<close>

definition assign_layout :: "figure \<Rightarrow> (string \<times> pval) list \<Rightarrow> figure" where
  "assign_layout f kwargs = f\<lparr>layout := fold (\<lambda>kv. set_prop (fst kv) (snd kv)) kwargs (layout f)\<rparr>"

text \<open>
  A keyword such as \<open>yaxis2_title\<close> reaches into a numbered axis. The layout of a figure has
  one x and one y axis per grid cell (a figure without a grid has the first of each);
  \<open>addressed_axis\<close> reads the number off the keyword.
\<close>

definition digit_val :: "char \<Rightarrow> nat" where
  "digit_val c = length (takeWhile (\<lambda>d. d \<noteq> c) ''0123456789'')"

definition addressed_axis :: "string \<Rightarrow> nat option" where
  "addressed_axis key =
     (let rest = drop 5 key;
          ds = takeWhile (\<lambda>c. c \<in> set ''0123456789'') rest;
          tl = dropWhile (\<lambda>c. c \<in> set ''0123456789'') rest
      in if (take 5 key = ''xaxis'' \<or> take 5 key = ''yaxis'') \<and> ds \<noteq> [] \<and> take 1 tl = ''_''
         then Some (fold (\<lambda>c n. 10 * n + digit_val c) ds 0)
         else None)"

definition axis_count :: "figure \<Rightarrow> nat" where
  "axis_count f = (case grid f of None \<Rightarrow> 1 | Some g \<Rightarrow> nrows g * ncols g)"

definition layout_key_ok :: "figure \<Rightarrow> string \<Rightarrow> bool" where
  "layout_key_ok f key =
     (case addressed_axis key of None \<Rightarrow> True | Some n \<Rightarrow> 1 \<le> n \<and> n \<le> axis_count f)"

text \<open>
  \<open>update_layout\<close>: plotly raises \<open>ValueError\<close> for a keyword that reaches into an axis the
  layout does not have, whatever the value (also for \<open>None\<close>), and assigns nothing then.
\<close>

definition update_layout :: "figure \<Rightarrow> (string \<times> pval) list \<Rightarrow> error + figure" where
  "update_layout f kwargs =
     (if list_all (\<lambda>kv. layout_key_ok f (fst kv)) kwargs then Inr (assign_layout f kwargs)
      else Inl (ValueError ''Invalid property specified for object of type Layout''))"

text \<open>\<open>update_xaxes\<close> is recorded as layout assignments that stand for every x axis.\<close>

definition update_xaxes :: "figure \<Rightarrow> (string \<times> pval) list \<Rightarrow> figure" where
  "update_xaxes f kwargs =
     assign_layout f (map (\<lambda>kv. (''xaxes_'' @ fst kv, snd kv)) kwargs)"

definition update_traces :: "figure \<Rightarrow> (string \<times> pval) list \<Rightarrow> figure" where
  "update_traces f kwargs =
     f\<lparr>traces := map (\<lambda>tc. (fst tc\<lparr>props := fold (\<lambda>kv. set_prop (fst kv) (snd kv)) kwargs (props (fst tc))\<rparr>, snd tc))
                      (traces f)\<rparr>"

text \<open>
  The class \<open>Chart\<close> of \<open>charts/base.py\<close>. \<open>fig\<close> is \<open>None\<close> after \<open>__init__\<close> and a plotly
  figure once a constructor function has set it. A figure object defines neither
  \<open>__bool__\<close> nor \<open>__len__\<close>, so it is truthy; \<open>None\<close> is falsy.
\<close>

record chart =
  data :: dataframe
  title :: "string option"
  fig :: "figure option"

definition Chart :: "dataframe \<Rightarrow> string option \<Rightarrow> chart" where
  "Chart d t = \<lparr>data = d, title = t, fig = None\<rparr>"

definition truthy :: "figure option \<Rightarrow> bool" where
  "truthy fo = (case fo of None \<Rightarrow> False | Some f \<Rightarrow> True)"

definition add_range_slider :: "chart \<Rightarrow> chart" where
  "add_range_slider self =
     (if truthy (fig self)
      then self\<lparr>fig := map_option (\<lambda>f. update_xaxes f [(''rangeslider_visible'', PBool True)])
                             (fig self)\<rparr>
      else self)"

text \<open>
  The keywords of \<open>add_zoom_pan\<close>, \<open>dragmode\<close> and \<open>modebar_add\<close>, reach into no axis, so
  its \<open>update_layout\<close> call is the plain assignment.
\<close>

definition add_zoom_pan :: "chart \<Rightarrow> chart" where
  "add_zoom_pan self =
     (if truthy (fig self)
      then self\<lparr>fig := map_option (\<lambda>f. assign_layout f
                     [(''dragmode'', PStr ''zoom''),
                      (''modebar_add'', PList [PStr ''zoom'', PStr ''pan'', PStr ''zoomIn'',
                                              PStr ''zoomOut'', PStr ''resetScale''])])
                             (fig self)\<rparr>
      else self)"

definition add_tooltips :: "chart \<Rightarrow> chart" where
  "add_tooltips self =
     (if truthy (fig self)
      then self\<lparr>fig := map_option (\<lambda>f. update_traces f
                     [(''hovertemplate'', PStr ''%{x}<br>%{y:.2f}<extra></extra>'')])
                             (fig self)\<rparr>
      else self)"

section \<open>\<open>create_candlestick\<close>\<close>

definition pstr_opt :: "string option \<Rightarrow> pval" where
  "pstr_opt t = (case t of None \<Rightarrow> PNone | Some s \<Rightarrow> PStr s)"

text \<open>
  Lines 67 to 111 of \<open>charts/base.py\<close>. The keyword arguments of \<open>go.Candlestick\<close> are
  evaluated left to right, so the first missing column among Open, High, Low, Close is the
  one reported. The parameter \<open>indicators\<close> is never read and is left out.
\<close>

definition create_candlestick :: "dataframe \<Rightarrow> string option \<Rightarrow> bool \<Rightarrow> error + chart" where
  "create_candlestick d ttl volume =
     (let rows = (if volume then 2 else 1)
      in case make_subplots rows 1 True 0.03 (if volume then [0.7, 0.3] else [1]) of
           Inl e \<Rightarrow> Inl e
         | Inr fig0 \<Rightarrow>
        (case getitem d ''Open'' of Inl e \<Rightarrow> Inl e | Inr op \<Rightarrow>
        (case getitem d ''High'' of Inl e \<Rightarrow> Inl e | Inr hi \<Rightarrow>
        (case getitem d ''Low'' of Inl e \<Rightarrow> Inl e | Inr lo \<Rightarrow>
        (case getitem d ''Close'' of Inl e \<Rightarrow> Inl e | Inr cl \<Rightarrow>
        (case add_trace fig0
                (go_Candlestick [(''x'', PIndex (index d)), (''open'', PSeries op),
                                 (''high'', PSeries hi), (''low'', PSeries lo),
                                 (''close'', PSeries cl), (''name'', PStr ''OHLC'')])
                (Some (1, 1)) of
           Inl e \<Rightarrow> Inl e
         | Inr fig1 \<Rightarrow>
        (case (if volume \<and> ''Volume'' \<in> set (map fst (columns d))
               then (case getitem d ''Volume'' of
                       Inl e \<Rightarrow> Inl e
                     | Inr v \<Rightarrow>
                         add_trace fig1
                           (go_Bar [(''x'', PIndex (index d)), (''y'', PSeries v),
                                    (''name'', PStr ''Volume'')])
                           (Some (2, 1)))
               else Inr fig1) of
           Inl e \<Rightarrow> Inl e
         | Inr fig2 \<Rightarrow>
        (case update_layout fig2
                [(''title'', pstr_opt ttl), (''yaxis_title'', PStr ''Price''),
                 (''yaxis2_title'', if volume then PStr ''Volume'' else PNone),
                 (''xaxis_rangeslider_visible'', PBool False)] of
           Inl e \<Rightarrow> Inl e
         | Inr fig3 \<Rightarrow> Inr ((Chart d ttl)\<lparr>fig := Some fig3\<rparr>)))))))))"

section \<open>The indicator functions\<close>

text \<open>
  The names bound at module level in \<open>indicators/technical.py\<close>: its four import lines
  bind \<open>pd\<close>, \<open>np\<close>, \<open>Optional\<close>, \<open>Union\<close>, \<open>Tuple\<close> and \<open>Chart\<close>, its \<open>def\<close>s the five
  functions. \<open>go\<close> is neither among them nor a Python builtin.
\<close>

definition technical_globals :: "string list" where
  "technical_globals =
     [''pd'', ''np'', ''Optional'', ''Union'', ''Tuple'', ''Chart'',
      ''add_sma'', ''add_ema'', ''add_rsi'', ''add_macd'', ''add_bollinger_bands'']"

definition load_global :: "string list \<Rightarrow> string \<Rightarrow> error + unit" where
  "load_global globals name = (if name \<in> set globals then Inr () else Inl (NameError name))"

text \<open>\<open>chart.fig.add_trace\<close>, \<open>chart.fig.add_hline\<close>: attribute lookup on the figure.\<close>

definition fig_attr :: "chart \<Rightarrow> string \<Rightarrow> error + figure" where
  "fig_attr c name = (case fig c of None \<Rightarrow> Inl (AttributeError name) | Some f \<Rightarrow> Inr f)"

text \<open>\<open>str\<close> of an integer, for the f-strings that name a trace.\<close>

fun str_of_nat :: "nat \<Rightarrow> string" where
  "str_of_nat n =
     (if n < 10 then [''0123456789'' ! n]
      else str_of_nat (n div 10) @ [''0123456789'' ! (n mod 10)])"

declare str_of_nat.simps [simp del]

definition str_of_int :: "int \<Rightarrow> string" where
  "str_of_int i = (if i < 0 then ''-'' @ str_of_nat (nat (- i)) else str_of_nat (nat i))"

definition line_width :: "real \<Rightarrow> string \<times> pval" where
  "line_width w = (''line'', PDict [(''width'', PNum w)])"

text \<open>
  Each function returns the chart untouched when \<open>chart.fig\<close> is falsy. Otherwise it computes
  its series and then evaluates the plotting call: the callee \<open>chart.fig.add_trace\<close> first,
  then the argument, which starts by loading the global name \<open>go\<close>.
\<close>

definition add_sma :: "chart \<Rightarrow> int \<Rightarrow> string \<Rightarrow> error + chart" where
  "add_sma c period column =
     (if \<not> truthy (fig c) then Inr c
      else case sma_series (data c) period column of
             Inl e \<Rightarrow> Inl e
           | Inr sma \<Rightarrow>
          (case fig_attr c ''add_trace'' of Inl e \<Rightarrow> Inl e | Inr f \<Rightarrow>
          (case load_global technical_globals ''go'' of Inl e \<Rightarrow> Inl e | Inr _ \<Rightarrow>
          (case add_trace f
                  (go_Scatter [(''x'', PIndex (index (data c))), (''y'', PSeries sma),
                               (''name'', PStr (''SMA '' @ str_of_int period)), line_width 1])
                  None of
             Inl e \<Rightarrow> Inl e
           | Inr f' \<Rightarrow> Inr (c\<lparr>fig := Some f'\<rparr>)))))"

definition add_ema :: "chart \<Rightarrow> int \<Rightarrow> string \<Rightarrow> error + chart" where
  "add_ema c period column =
     (if \<not> truthy (fig c) then Inr c
      else case ema_series (data c) period column of
             Inl e \<Rightarrow> Inl e
           | Inr ema \<Rightarrow>
          (case fig_attr c ''add_trace'' of Inl e \<Rightarrow> Inl e | Inr f \<Rightarrow>
          (case load_global technical_globals ''go'' of Inl e \<Rightarrow> Inl e | Inr _ \<Rightarrow>
          (case add_trace f
                  (go_Scatter [(''x'', PIndex (index (data c))), (''y'', PSeries ema),
                               (''name'', PStr (''EMA '' @ str_of_int period)), line_width 1])
                  None of
             Inl e \<Rightarrow> Inl e
           | Inr f' \<Rightarrow> Inr (c\<lparr>fig := Some f'\<rparr>)))))"

definition add_rsi :: "chart \<Rightarrow> int \<Rightarrow> string \<Rightarrow> error + chart" where
  "add_rsi c period column =
     (if \<not> truthy (fig c) then Inr c
      else case rsi_series (data c) period column of
             Inl e \<Rightarrow> Inl e
           | Inr (gain, loss, rs, rsi) \<Rightarrow>
          (case fig_attr c ''add_trace'' of Inl e \<Rightarrow> Inl e | Inr f \<Rightarrow>
          (case load_global technical_globals ''go'' of Inl e \<Rightarrow> Inl e | Inr _ \<Rightarrow>
          (case add_trace f
                  (go_Scatter [(''x'', PIndex (index (data c))), (''y'', PFloats rsi),
                               (''name'', PStr ''RSI''), line_width 1])
                  (Some (2, 1)) of
             Inl e \<Rightarrow> Inl e
           | Inr f1 \<Rightarrow>
          (case add_hline f1 [(''y'', PNum 70), (''line_dash'', PStr ''dash''),
                              (''line_color'', PStr ''red'')] (Some (2, 1)) of
             Inl e \<Rightarrow> Inl e
           | Inr f2 \<Rightarrow>
          (case add_hline f2 [(''y'', PNum 30), (''line_dash'', PStr ''dash''),
                              (''line_color'', PStr ''green'')] (Some (2, 1)) of
             Inl e \<Rightarrow> Inl e
           | Inr f3 \<Rightarrow> Inr (c\<lparr>fig := Some f3\<rparr>)))))))"

definition add_macd :: "chart \<Rightarrow> int \<Rightarrow> int \<Rightarrow> int \<Rightarrow> string \<Rightarrow> error + chart" where
  "add_macd c fast_period slow_period signal_period column =
     (if \<not> truthy (fig c) then Inr c
      else case macd_series (data c) fast_period slow_period signal_period column of
             Inl e \<Rightarrow> Inl e
           | Inr (macd, signal, hist) \<Rightarrow>
          (case fig_attr c ''add_trace'' of Inl e \<Rightarrow> Inl e | Inr f \<Rightarrow>
          (case load_global technical_globals ''go'' of Inl e \<Rightarrow> Inl e | Inr _ \<Rightarrow>
          (case add_trace f
                  (go_Scatter [(''x'', PIndex (index (data c))), (''y'', PSeries macd),
                               (''name'', PStr ''MACD''), line_width 1])
                  (Some (2, 1)) of
             Inl e \<Rightarrow> Inl e
           | Inr f1 \<Rightarrow>
          (case add_trace f1
                  (go_Scatter [(''x'', PIndex (index (data c))), (''y'', PSeries signal),
                               (''name'', PStr ''Signal''), line_width 1])
                  (Some (2, 1)) of
             Inl e \<Rightarrow> Inl e
           | Inr f2 \<Rightarrow>
          (case add_trace f2
                  (go_Bar [(''x'', PIndex (index (data c))), (''y'', PSeries hist),
                           (''name'', PStr ''Histogram'')])
                  (Some (2, 1)) of
             Inl e \<Rightarrow> Inl e
           | Inr f3 \<Rightarrow> Inr (c\<lparr>fig := Some f3\<rparr>)))))))"

definition add_bollinger_bands :: "chart \<Rightarrow> int \<Rightarrow> real \<Rightarrow> string \<Rightarrow> error + chart" where
  "add_bollinger_bands c period std_dev column =
     (if \<not> truthy (fig c) then Inr c
      else case bollinger_series (data c) period std_dev column of
             Inl e \<Rightarrow> Inl e
           | Inr (ma, std, upper, lower) \<Rightarrow>
          (case fig_attr c ''add_trace'' of Inl e \<Rightarrow> Inl e | Inr f \<Rightarrow>
          (case load_global technical_globals ''go'' of Inl e \<Rightarrow> Inl e | Inr _ \<Rightarrow>
          (case add_trace f
                  (go_Scatter [(''x'', PIndex (index (data c))), (''y'', PSeries upper),
                               (''name'', PStr ''Upper Band''),
                               (''line'', PDict [(''width'', PNum 1), (''dash'', PStr ''dash'')])])
                  None of
             Inl e \<Rightarrow> Inl e
           | Inr f1 \<Rightarrow>
          (case add_trace f1
                  (go_Scatter [(''x'', PIndex (index (data c))), (''y'', PSeries lower),
                               (''name'', PStr ''Lower Band''),
                               (''line'', PDict [(''width'', PNum 1), (''dash'', PStr ''dash'')]),
                               (''fill'', PStr ''tonexty'')])
                  None of
             Inl e \<Rightarrow> Inl e
           | Inr f2 \<Rightarrow> Inr (c\<lparr>fig := Some f2\<rparr>))))))"

section \<open>\<open>plot_roc_curve\<close>\<close>

text \<open>
  \<open>pd.DataFrame\<close> of a dict of arrays: the columns in the dict's order over a fresh range
  index; arrays of different lengths are rejected with \<open>ValueError\<close>.
\<close>

definition pd_DataFrame :: "(string \<times> series) list \<Rightarrow> error + dataframe" where
  "pd_DataFrame d =
     (case d of
        [] \<Rightarrow> Inr \<lparr>index = RangeIndex 0, columns = []\<rparr>
      | kv # rest \<Rightarrow>
          if list_all (\<lambda>kv'. length (snd kv') = length (snd kv)) rest
          then Inr \<lparr>index = RangeIndex (length (snd kv)), columns = d\<rparr>
          else Inl (ValueError ''All arrays must be of the same length''))"

definition title_or :: "string option \<Rightarrow> string \<Rightarrow> string" where
  "title_or t dflt = (case t of None \<Rightarrow> dflt | Some s \<Rightarrow> if s = [] then dflt else s)"

text \<open>
  Lines 221 to 259 of \<open>ml/visualizations.py\<close>. The scikit-learn functions \<open>roc_curve\<close> and
  \<open>auc\<close> and the float format \<open>.2f\<close> are library code outside the repository and are
  parameters of the model: \<open>roc_curve\<close> returns \<open>(fpr, tpr, thresholds)\<close> or raises.
\<close>

definition plot_roc_curve ::
  "('l list \<Rightarrow> series \<Rightarrow> error + (series \<times> series \<times> series)) \<Rightarrow>
   (series \<Rightarrow> series \<Rightarrow> error + real option) \<Rightarrow> (real option \<Rightarrow> string) \<Rightarrow>
   'l list \<Rightarrow> series \<Rightarrow> string option \<Rightarrow> error + chart" where
  "plot_roc_curve roc_curve auc fmt_2f y_true y_score ttl =
     (case roc_curve y_true y_score of
        Inl e \<Rightarrow> Inl e
      | Inr (fpr, tpr, thresholds) \<Rightarrow>
     (case auc fpr tpr of
        Inl e \<Rightarrow> Inl e
      | Inr roc_auc \<Rightarrow>
     (case add_trace go_Figure
             (go_Scatter [(''x'', PSeries fpr), (''y'', PSeries tpr),
                          (''name'', PStr (''ROC (AUC = '' @ fmt_2f roc_auc @ '')'')),
                          (''mode'', PStr ''lines''), line_width 2])
             None of
        Inl e \<Rightarrow> Inl e
      | Inr fig1 \<Rightarrow>
     (case add_trace fig1
             (go_Scatter [(''x'', PList [PNum 0, PNum 1]), (''y'', PList [PNum 0, PNum 1]),
                          (''name'', PStr ''Random''), (''mode'', PStr ''lines''),
                          (''line'', PDict [(''width'', PNum 2), (''dash'', PStr ''dash'')])])
             None of
        Inl e \<Rightarrow> Inl e
      | Inr fig2 \<Rightarrow>
     (case update_layout fig2
             [(''title'', PStr (title_or ttl ''ROC Curve'')),
              (''xaxis_title'', PStr ''False Positive Rate''),
              (''yaxis_title'', PStr ''True Positive Rate''),
              (''showlegend'', PBool True)] of
        Inl e \<Rightarrow> Inl e
      | Inr fig3 \<Rightarrow>
          (case pd_DataFrame [(''fpr'', fpr), (''tpr'', tpr)] of
             Inl e \<Rightarrow> Inl e
           | Inr df \<Rightarrow> Inr ((Chart df ttl)\<lparr>fig := Some fig3\<rparr>)))))))"

section \<open>Reference definitions in the words of the specification\<close>

text \<open>The recursion of the glossary, started at a previous average \<open>prev\<close>.\<close>

fun ema_from :: "real \<Rightarrow> real \<Rightarrow> real list \<Rightarrow> real list" where
  "ema_from alpha prev [] = []"
| "ema_from alpha prev (x # xs) =
     (let e = alpha * x + (1 - alpha) * prev in e # ema_from alpha e xs)"

fun ema_rec :: "real \<Rightarrow> real list \<Rightarrow> real list" where
  "ema_rec alpha [] = []"
| "ema_rec alpha (x # xs) = x # ema_from alpha x xs"

text \<open>
  The mean and the sample standard deviation (divisor \<open>p - 1\<close>) of the \<open>p\<close> entries of
  \<open>xs\<close> that end at index \<open>i\<close>.
\<close>

definition window_mean :: "real list \<Rightarrow> nat \<Rightarrow> nat \<Rightarrow> real" where
  "window_mean xs p i = (\<Sum>j = i + 1 - p..i. xs ! j) / real p"

definition window_sample_std :: "real list \<Rightarrow> nat \<Rightarrow> nat \<Rightarrow> real" where
  "window_sample_std xs p i =
     sqrt ((\<Sum>j = i + 1 - p..i. (xs ! j - window_mean xs p i)\<^sup>2) / real (p - 1))"

text \<open>
  The one-step gain and loss at index \<open>j\<close>: the rise, respectively the size of the fall, from
  entry \<open>j - 1\<close> to entry \<open>j\<close>, and 0 otherwise (also at index 0, which has no predecessor);
  and their unweighted means over the \<open>p\<close> indices ending at \<open>i\<close>.
\<close>

definition step_gain :: "real list \<Rightarrow> nat \<Rightarrow> real" where
  "step_gain xs j = (if 0 < j \<and> xs ! (j - 1) < xs ! j then xs ! j - xs ! (j - 1) else 0)"

definition step_loss :: "real list \<Rightarrow> nat \<Rightarrow> real" where
  "step_loss xs j = (if 0 < j \<and> xs ! j < xs ! (j - 1) then xs ! (j - 1) - xs ! j else 0)"

definition avg_gain :: "real list \<Rightarrow> nat \<Rightarrow> nat \<Rightarrow> real" where
  "avg_gain xs p i = (\<Sum>j = i + 1 - p..i. step_gain xs j) / real p"

definition avg_loss :: "real list \<Rightarrow> nat \<Rightarrow> nat \<Rightarrow> real" where
  "avg_loss xs p i = (\<Sum>j = i + 1 - p..i. step_loss xs j) / real p"

section \<open>Rolling windows over series without missing values\<close>

lemma observations_Some: "observations (map Some xs) = xs"
  by (induction xs) (simp_all add: observations_def map_filter_simps)

lemma window_at_map: "window_at w i (map f xs) = map f (window_at w i xs)"
  by (simp add: window_at_def drop_map take_map)

lemma length_window_at: "i < length xs \<Longrightarrow> length (window_at w i xs) = min w (Suc i)"
  by (auto simp: window_at_def)

lemma window_at_nth:
  assumes "i < length xs"
  shows "window_at w i xs = map ((!) xs) [Suc i - w..<Suc i]"
  using assms by (intro nth_equalityI) (auto simp del: upt_Suc simp add: window_at_def)

lemma sum_list_map_window_at:
  fixes f :: "'a \<Rightarrow> real"
  assumes "i < length xs"
  shows "sum_list (map f (window_at w i xs)) = (\<Sum>j = Suc i - w..i. f (xs ! j))"
  using assms
  by (simp del: upt_Suc add: window_at_nth comp_def interv_sum_list_conv_sum_set_nat
        atLeastLessThanSuc_atLeastAtMost)

lemma sum_list_window_at:
  fixes xs :: "real list"
  assumes "i < length xs"
  shows "sum_list (window_at w i xs) = (\<Sum>j = Suc i - w..i. xs ! j)"
  using sum_list_map_window_at [OF assms, of "\<lambda>x. x" w] by simp

lemma win_mean_Some:
  "win_mean w (map Some ys) =
     (if w \<le> length ys \<and> 0 < length ys then Some (sum_list ys / real (length ys)) else None)"
  by (simp add: win_mean_def observations_Some Let_def)

lemma length_rolling_mean [simp]: "length (rolling_mean (w, s)) = length s"
  by (simp add: rolling_mean_def)

lemma rolling_mean_nth:
  assumes "i < length xs"
  shows "rolling_mean (w, map Some xs) ! i =
     (if 0 < w \<and> w - 1 \<le> i then Some ((\<Sum>j = Suc i - w..i. xs ! j) / real w) else None)"
proof -
  have "rolling_mean (w, map Some xs) ! i = win_mean w (map Some (window_at w i xs))"
    using assms by (simp add: rolling_mean_def window_at_map)
  also have "\<dots> = (if w \<le> min w (Suc i) \<and> 0 < min w (Suc i)
                     then Some (sum_list (window_at w i xs) / real (min w (Suc i))) else None)"
    using assms by (simp add: win_mean_Some length_window_at)
  also have "\<dots> = (if 0 < w \<and> w - 1 \<le> i then Some ((\<Sum>j = Suc i - w..i. xs ! j) / real w) else None)"
    using assms by (auto simp: sum_list_window_at min_def)
  finally show ?thesis .
qed

text \<open>
  C2. For a column without missing values and a period \<open>p \<ge> 1\<close>, the series computed on
  line 26 of \<open>add_sma\<close> has the length of the column; at every index \<open>i \<ge> p - 1\<close> it is the
  sum of the entries \<open>i - p + 1, \<dots>, i\<close> divided by \<open>p\<close>, and at every index \<open>i < p - 1\<close> it is
  NaN.
\<close>

theorem sma_is_trailing_mean:
  assumes "map_of (columns d) column = Some (map Some xs)" and "1 \<le> p"
  shows "\<exists>sma. sma_series d p column = Inr sma \<and> length sma = length xs \<and>
           (\<forall>i<length xs. sma ! i =
              (if nat p - 1 \<le> i then Some ((\<Sum>j = i + 1 - nat p..i. xs ! j) / real_of_int p)
               else None))"
proof -
  have "sma_series d p column = Inr (rolling_mean (nat p, map Some xs))"
    using assms by (simp add: sma_series_def getitem_def rolling_def)
  moreover have "\<forall>i<length xs. rolling_mean (nat p, map Some xs) ! i =
              (if nat p - 1 \<le> i then Some ((\<Sum>j = i + 1 - nat p..i. xs ! j) / real_of_int p)
               else None)"
    using assms(2) by (simp add: rolling_mean_nth)
  ultimately show ?thesis by simp
qed

theorem sma_is_trailing_mean_witness:
  "sma_series \<lparr>index = RangeIndex 4, columns = [(''Close'', map Some [1, 2, 3, 6])]\<rparr> 2 ''Close''
     = Inr [None, Some (3 / 2), Some (5 / 2), Some (9 / 2)]"
proof -
  let ?d = "\<lparr>index = RangeIndex 4, columns = [(''Close'', map Some [1, 2, 3, 6 :: real])]\<rparr>"
  obtain sma where s: "sma_series ?d 2 ''Close'' = Inr sma" and l: "length sma = 4"
    and n: "\<forall>i<4. sma ! i =
              (if nat 2 - 1 \<le> i then Some ((\<Sum>j = i + 1 - nat 2..i. [1, 2, 3, 6 :: real] ! j) / real_of_int 2)
               else None)"
    using sma_is_trailing_mean [of ?d "''Close''" "[1, 2, 3, 6]" 2] by auto
  have "sma = [sma ! 0, sma ! 1, sma ! 2, sma ! 3]"
    using l by (intro nth_equalityI) (auto simp: nth_Cons' less_Suc_eq numeral_eq_Suc)
  also have "\<dots> = [None, Some (3 / 2), Some (5 / 2), Some (9 / 2)]"
    using n by (simp add: atLeastAtMost_upt upt_conv_Cons nth_Cons')
  finally show ?thesis using s by simp
qed

section \<open>The exponentially weighted mean over series without missing values\<close>

lemma ewm_alpha: "1 \<le> p \<Longrightarrow> 1 / (1 + (real_of_int p - 1) / 2) = 2 / (real_of_int p + 1)"
  by (simp add: field_simps)

lemma ewm_step_Some:
  "ewm_step com (Some w, 1) (Some c)
     = (Some (1 / (1 + com) * c + (1 - 1 / (1 + com)) * w), 1)"
proof -
  define alpha where "alpha = 1 / (1 + com)"
  have 1: "((1 - alpha) * w + alpha * c) / (1 - alpha + alpha) = alpha * c + (1 - alpha) * w"
    by simp
  have 2: "((1 - alpha) * w + (1 - (1 - alpha)) * c) / (1 - alpha + (1 - (1 - alpha)))
             = alpha * c + (1 - alpha) * w"
    by simp
  have 3: "w = c \<Longrightarrow> w = alpha * c + (1 - alpha) * w"
    by (simp add: algebra_simps)
  have "ewm_step com (Some w, 1) (Some c) = (Some (alpha * c + (1 - alpha) * w), 1)"
    using 1 2 3 unfolding alpha_def by (auto simp: Let_def)
  then show ?thesis by (simp only: alpha_def)
qed

lemma ewm_scan_Some:
  "ewm_scan com (Some w, 1) (map Some xs) = map Some (ema_from (1 / (1 + com)) w xs)"
  by (induction xs arbitrary: w) (simp_all add: ewm_step_Some Let_def del: ewm_step.simps)

lemma ewm_mean_Some: "ewm_mean (com, map Some xs) = map Some (ema_rec (1 / (1 + com)) xs)"
  by (cases xs) (simp_all add: ewm_scan_Some)

lemma length_ema_from [simp]: "length (ema_from alpha w xs) = length xs"
  by (induction xs arbitrary: w) (simp_all add: Let_def)

lemma length_ema_rec [simp]: "length (ema_rec alpha xs) = length xs"
  by (cases xs) simp_all

lemma ema_from_nth:
  "i < length xs \<Longrightarrow>
   ema_from alpha w xs ! i =
     alpha * xs ! i + (1 - alpha) * (if i = 0 then w else ema_from alpha w xs ! (i - 1))"
proof (induction xs arbitrary: w i)
  case Nil
  then show ?case by simp
next
  case (Cons x xs)
  show ?case
  proof (cases i)
    case 0
    then show ?thesis by (simp add: Let_def)
  next
    case (Suc k)
    with Cons.prems have "k < length xs" by simp
    from Cons.IH [OF this, of "alpha * x + (1 - alpha) * w"] Suc show ?thesis
      by (cases k) (simp_all add: Let_def)
  qed
qed

lemma ema_rec_0: "xs \<noteq> [] \<Longrightarrow> ema_rec alpha xs ! 0 = xs ! 0"
  by (cases xs) simp_all

lemma ema_rec_nth:
  assumes "1 \<le> i" and "i < length xs"
  shows "ema_rec alpha xs ! i = alpha * xs ! i + (1 - alpha) * ema_rec alpha xs ! (i - 1)"
proof (cases xs)
  case Nil
  with assms show ?thesis by simp
next
  case (Cons x ys)
  from assms obtain k where k: "i = Suc k" by (cases i) auto
  with assms Cons have "k < length ys" by simp
  from ema_from_nth [OF this, of alpha x] k Cons show ?thesis
    by (cases k) simp_all
qed

lemma ewm_span_mean_Some:
  "1 \<le> p \<Longrightarrow>
   ewm_span_mean p (map Some xs) = Inr (map Some (ema_rec (2 / (real_of_int p + 1)) xs))"
  by (simp add: ewm_span_mean_def ewm_def ewm_alpha ewm_mean_Some del: ewm_mean.simps)

text \<open>
  C3. For a column without missing values and a period \<open>p \<ge> 1\<close>, the series computed on
  line 55 of \<open>add_ema\<close> has no missing value and satisfies \<open>ema[0] = s[0]\<close> and
  \<open>ema[i] = alpha * s[i] + (1 - alpha) * ema[i - 1]\<close> for \<open>i \<ge> 1\<close>, with
  \<open>alpha = 2 / (p + 1)\<close>; \<open>alpha\<close> lies in \<open>(0, 1]\<close>, so each step discounts all older
  entries by the factor \<open>1 - alpha < 1\<close>.
\<close>

theorem ema_recursion:
  assumes "map_of (columns d) column = Some (map Some xs)" and "1 \<le> p"
  shows "\<exists>e. ema_series d p column = Inr (map Some e) \<and> length e = length xs \<and>
           (xs \<noteq> [] \<longrightarrow> e ! 0 = xs ! 0) \<and>
           (\<forall>i. 1 \<le> i \<and> i < length xs \<longrightarrow>
              e ! i = 2 / (real_of_int p + 1) * xs ! i
                      + (1 - 2 / (real_of_int p + 1)) * e ! (i - 1)) \<and>
           0 < 2 / (real_of_int p + 1) \<and> 2 / (real_of_int p + 1) \<le> 1"
proof -
  let ?a = "2 / (real_of_int p + 1)"
  have "ema_series d p column = Inr (map Some (ema_rec ?a xs))"
    using assms by (simp add: ema_series_def getitem_def ewm_span_mean_Some)
  moreover have "0 < ?a" and "?a \<le> 1"
    using assms(2) by simp_all
  ultimately show ?thesis
    using ema_rec_0 [of xs ?a] ema_rec_nth [of _ xs ?a]
    by (intro exI [of _ "ema_rec ?a xs"]) simp
qed

theorem ema_recursion_witness:
  "ema_series \<lparr>index = RangeIndex 3, columns = [(''Close'', map Some [1, 4, 10])]\<rparr> 3 ''Close''
     = Inr [Some 1, Some (5 / 2), Some (25 / 4)]"
proof -
  let ?d = "\<lparr>index = RangeIndex 3, columns = [(''Close'', map Some [1, 4, 10 :: real])]\<rparr>"
  obtain e where s: "ema_series ?d 3 ''Close'' = Inr (map Some e)" and l: "length e = 3"
    and z: "e ! 0 = 1"
    and n: "\<forall>i. 1 \<le> i \<and> i < 3 \<longrightarrow>
              e ! i = 2 / (real_of_int 3 + 1) * [1, 4, 10 :: real] ! i
                      + (1 - 2 / (real_of_int 3 + 1)) * e ! (i - 1)"
    using ema_recursion [of ?d "''Close''" "[1, 4, 10]" 3] by auto
  have e1: "e ! 1 = 5 / 2" using n [rule_format, of 1] z by simp
  have e2: "e ! 2 = 25 / 4" using n [rule_format, of 2] e1 by simp
  have "e = [e ! 0, e ! 1, e ! 2]"
    using l by (intro nth_equalityI) (auto simp: nth_Cons' less_Suc_eq numeral_eq_Suc)
  also have "\<dots> = [1, 5 / 2, 25 / 4]" by (simp only: z e1 e2)
  finally show ?thesis using s by simp
qed

section \<open>MACD\<close>

lemma series_sub_Some: "series_sub (map Some a) (map Some b) = map Some (map2 (-) a b)"
  by (auto simp: series_sub_def zip_map_map opt_sub_def)

lemma series_add_Some: "series_add (map Some a) (map Some b) = map Some (map2 (+) a b)"
  by (auto simp: series_add_def zip_map_map opt_add_def)

text \<open>
  C4. For a column \<open>s\<close> without missing values and periods of at least 1 (smaller spans are
  rejected by pandas), lines 139 to 143 of \<open>add_macd\<close> compute
  \<open>macd = EMA(s, fast_period) - EMA(s, slow_period)\<close>, \<open>signal = EMA(macd, signal_period)\<close> and
  \<open>hist = macd - signal\<close>, entry by entry, where \<open>EMA(x, p)\<close> is \<open>x.ewm(span=p,
  adjust=False).mean()\<close>; none of the three series has a missing value.
\<close>

theorem macd_is_difference_of_emas:
  assumes "map_of (columns d) column = Some (map Some xs)"
    and "1 \<le> fast_period" and "1 \<le> slow_period" and "1 \<le> signal_period"
  shows "\<exists>e1 e2 m sg.
           ewm_span_mean fast_period (map Some xs) = Inr (map Some e1) \<and>
           ewm_span_mean slow_period (map Some xs) = Inr (map Some e2) \<and>
           ewm_span_mean signal_period (map Some m) = Inr (map Some sg) \<and>
           macd_series d fast_period slow_period signal_period column
             = Inr (map Some m, map Some sg, map Some (map2 (-) m sg)) \<and>
           m = map2 (-) e1 e2 \<and>
           length e1 = length xs \<and> length e2 = length xs \<and> length sg = length xs"
proof -
  let ?e1 = "ema_rec (2 / (real_of_int fast_period + 1)) xs"
  let ?e2 = "ema_rec (2 / (real_of_int slow_period + 1)) xs"
  let ?m = "map2 (-) ?e1 ?e2"
  let ?sg = "ema_rec (2 / (real_of_int signal_period + 1)) ?m"
  have 1: "ewm_span_mean fast_period (map Some xs) = Inr (map Some ?e1)"
    using assms(2) by (rule ewm_span_mean_Some)
  have 2: "ewm_span_mean slow_period (map Some xs) = Inr (map Some ?e2)"
    using assms(3) by (rule ewm_span_mean_Some)
  have 3: "ewm_span_mean signal_period (map Some ?m) = Inr (map Some ?sg)"
    using assms(4) by (rule ewm_span_mean_Some)
  have "macd_series d fast_period slow_period signal_period column
          = Inr (map Some ?m, map Some ?sg, map Some (map2 (-) ?m ?sg))"
    by (simp only: macd_series_def getitem_def assms(1) option.case sum.case 1 2 3
          series_sub_Some Let_def)
  with 1 2 3 show ?thesis
    by (intro exI [of _ ?e1] exI [of _ ?e2] exI [of _ ?m] exI [of _ ?sg]) simp
qed

theorem macd_is_difference_of_emas_witness:
  "macd_series \<lparr>index = RangeIndex 3, columns = [(''Close'', map Some [1, 4, 10])]\<rparr> 1 3 3 ''Close''
     = Inr ([Some 0, Some (3 / 2), Some (15 / 4)], [Some 0, Some (3 / 4), Some (9 / 4)],
            [Some 0, Some (3 / 4), Some (3 / 2)])"
proof -
  let ?d = "\<lparr>index = RangeIndex 3, columns = [(''Close'', map Some [1, 4, 10 :: real])]\<rparr>"
  have e1: "ewm_span_mean 1 (map Some [1, 4, 10]) = Inr (map Some [1, 4, 10])"
    by (simp add: ewm_span_mean_def ewm_def)
  have e2: "ewm_span_mean 3 (map Some [1, 4, 10]) = Inr (map Some [1, 5 / 2, 25 / 4])"
    by (simp add: ewm_span_mean_def ewm_def)
  have e3: "ewm_span_mean 3 (map Some [0, 3 / 2, 15 / 4]) = Inr (map Some [0, 3 / 4, 9 / 4])"
    by (simp add: ewm_span_mean_def ewm_def)
  obtain e1' e2' m sg where
    a: "ewm_span_mean 1 (map Some [1, 4, 10]) = Inr (map Some e1')" and
    b: "ewm_span_mean 3 (map Some [1, 4, 10]) = Inr (map Some e2')" and
    c: "ewm_span_mean 3 (map Some m) = Inr (map Some sg)" and
    r: "macd_series ?d 1 3 3 ''Close'' = Inr (map Some m, map Some sg, map Some (map2 (-) m sg))" and
    m: "m = map2 (-) e1' e2'"
    using macd_is_difference_of_emas [of ?d "''Close''" "[1, 4, 10]" 1 3 3] by auto
  from a e1 have "map Some e1' = map Some [1, 4, 10]" by (simp only: sum.inject)
  then have e1': "e1' = [1, 4, 10]" by (simp only: inj_map_eq_map [OF inj_Some])
  from b e2 have "map Some e2' = map Some [1, 5 / 2, 25 / 4]" by (simp only: sum.inject)
  then have e2': "e2' = [1, 5 / 2, 25 / 4]" by (simp only: inj_map_eq_map [OF inj_Some])
  have m': "m = [0, 3 / 2, 15 / 4]" using m e1' e2' by simp
  from c e3 have "map Some sg = map Some [0, 3 / 4, 9 / 4]" by (simp only: m' sum.inject)
  then have "sg = [0, 3 / 4, 9 / 4]" by (simp only: inj_map_eq_map [OF inj_Some])
  with r m' show ?thesis by simp
qed

section \<open>Bollinger bands\<close>

lemma win_std_Some:
  "win_std w (map Some ys) =
     (if w \<le> length ys \<and> 1 < length ys
      then Some (sqrt (sum_list (map (\<lambda>x. (x - sum_list ys / real (length ys))\<^sup>2) ys)
                       / real (length ys - 1)))
      else None)"
  by (simp add: win_std_def observations_Some Let_def)

lemma length_rolling_std [simp]: "length (rolling_std (w, s)) = length s"
  by (simp add: rolling_std_def)

lemma rolling_std_nth:
  assumes "i < length xs"
  shows "rolling_std (w, map Some xs) ! i =
     (if 1 < w \<and> w - 1 \<le> i
      then Some (sqrt ((\<Sum>j = Suc i - w..i. (xs ! j - (\<Sum>j = Suc i - w..i. xs ! j) / real w)\<^sup>2)
                       / real (w - 1)))
      else None)"
proof -
  have "rolling_std (w, map Some xs) ! i = win_std w (map Some (window_at w i xs))"
    using assms by (simp add: rolling_std_def window_at_map)
  also have "\<dots> = (if w \<le> min w (Suc i) \<and> 1 < min w (Suc i)
       then Some (sqrt (sum_list (map (\<lambda>x. (x - sum_list (window_at w i xs) / real (min w (Suc i)))\<^sup>2)
                                      (window_at w i xs))
                        / real (min w (Suc i) - 1)))
       else None)"
    using assms by (simp add: win_std_Some length_window_at)
  also have "\<dots> = (if 1 < w \<and> w - 1 \<le> i
      then Some (sqrt ((\<Sum>j = Suc i - w..i. (xs ! j - (\<Sum>j = Suc i - w..i. xs ! j) / real w)\<^sup>2)
                       / real (w - 1)))
      else None)"
    using assms by (auto simp: sum_list_window_at sum_list_map_window_at min_def)
  finally show ?thesis .
qed

text \<open>
  C5. For a column without missing values, a period \<open>p \<ge> 0\<close> (pandas rejects a negative
  window) and a multiplier \<open>std_dev\<close>, lines 201 to 204 of \<open>add_bollinger_bands\<close> compute
  bands that are defined exactly at the indices \<open>i \<ge> p - 1\<close> when \<open>p \<ge> 2\<close> (and nowhere
  when \<open>p < 2\<close>). Where they are defined, \<open>upper[i] = ma[i] + std_dev * sigma[i]\<close> and
  \<open>lower[i] = ma[i] - std_dev * sigma[i]\<close>, with \<open>ma[i]\<close> the mean and \<open>sigma[i]\<close> the sample
  standard deviation of the \<open>p\<close> entries ending at \<open>i\<close>, and
  \<open>upper[i] - ma[i] = ma[i] - lower[i]\<close>.
\<close>

theorem bollinger_bands_symmetric:
  assumes "map_of (columns d) column = Some (map Some xs)" and "0 \<le> p"
  shows "\<exists>ma sd upper lower.
           bollinger_series d p std_dev column = Inr (ma, sd, upper, lower) \<and>
           length upper = length xs \<and> length lower = length xs \<and>
           (\<forall>i<length xs.
              if 2 \<le> p \<and> nat p - 1 \<le> i
              then \<exists>m g u l.
                     ma ! i = Some m \<and> sd ! i = Some g \<and> upper ! i = Some u \<and> lower ! i = Some l \<and>
                     m = window_mean xs (nat p) i \<and> g = window_sample_std xs (nat p) i \<and>
                     u = m + std_dev * g \<and> l = m - std_dev * g \<and> u - m = m - l
              else upper ! i = None \<and> lower ! i = None)"
proof -
  let ?ma = "rolling_mean (nat p, map Some xs)"
  let ?sd = "rolling_std (nat p, map Some xs)"
  let ?up = "series_add ?ma (series_scale ?sd std_dev)"
  let ?lo = "series_sub ?ma (series_scale ?sd std_dev)"
  have r: "bollinger_series d p std_dev column = Inr (?ma, ?sd, ?up, ?lo)"
    using assms by (simp add: bollinger_series_def getitem_def rolling_def Let_def)
  have len: "length ?up = length xs" "length ?lo = length xs"
    by (simp_all add: series_add_def series_sub_def series_scale_def)
  have pt: "if 2 \<le> p \<and> nat p - 1 \<le> i
              then \<exists>m g u l.
                     ?ma ! i = Some m \<and> ?sd ! i = Some g \<and> ?up ! i = Some u \<and> ?lo ! i = Some l \<and>
                     m = window_mean xs (nat p) i \<and> g = window_sample_std xs (nat p) i \<and>
                     u = m + std_dev * g \<and> l = m - std_dev * g \<and> u - m = m - l
              else ?up ! i = None \<and> ?lo ! i = None" if i: "i < length xs" for i
  proof -
    have up: "?up ! i = opt_add (?ma ! i) (map_option (\<lambda>x. x * std_dev) (?sd ! i))"
      using i by (simp add: series_add_def series_scale_def)
    have lo: "?lo ! i = opt_sub (?ma ! i) (map_option (\<lambda>x. x * std_dev) (?sd ! i))"
      using i by (simp add: series_sub_def series_scale_def)
    show ?thesis
    proof (cases "2 \<le> p \<and> nat p - 1 \<le> i")
      case True
      then have m: "?ma ! i = Some (window_mean xs (nat p) i)"
        using i by (simp add: rolling_mean_nth window_mean_def)
      from True have s: "?sd ! i = Some (window_sample_std xs (nat p) i)"
        using i by (simp add: rolling_std_nth window_sample_std_def window_mean_def)
      from True show ?thesis
        by (simp add: up lo m s opt_add_def opt_sub_def mult.commute)
    next
      case False
      then have "?sd ! i = None"
        using i by (auto simp: rolling_std_nth)
      with False show ?thesis
        by (simp add: up lo opt_add_def opt_sub_def split: option.splits)
    qed
  qed
  show ?thesis
    apply (rule exI [of _ ?ma])
    apply (rule exI [of _ ?sd])
    apply (rule exI [of _ ?up])
    apply (rule exI [of _ ?lo])
    using r len pt by blast
qed

theorem bollinger_bands_symmetric_witness:
  "\<exists>ma sd upper lower.
     bollinger_series \<lparr>index = RangeIndex 3, columns = [(''Close'', map Some [0, 3, 6])]\<rparr> 3 2 ''Close''
       = Inr (ma, sd, upper, lower) \<and>
     ma ! 2 = Some 3 \<and> sd ! 2 = Some 3 \<and> upper ! 2 = Some 9 \<and> lower ! 2 = Some (- 3) \<and>
     upper ! 1 = None \<and> lower ! 1 = None"
proof -
  let ?d = "\<lparr>index = RangeIndex 3, columns = [(''Close'', map Some [0, 3, 6 :: real])]\<rparr>"
  have m: "window_mean [0, 3, 6] 3 2 = 3"
    by (simp add: window_mean_def atLeastAtMost_upt upt_conv_Cons)
  have "sqrt 9 = 3"
    by (rule real_sqrt_unique) simp_all
  then have g: "window_sample_std [0, 3, 6] 3 2 = 3"
    by (simp add: window_sample_std_def m) (simp add: atLeastAtMost_upt upt_conv_Cons)
  have p1: "map_of (columns ?d) ''Close'' = Some (map Some [0, 3, 6])" by simp
  have p2: "(0::int) \<le> 3" by simp
  from bollinger_bands_symmetric [OF p1 p2, of 2]
  obtain ma sd upper lower where
    r: "bollinger_series ?d 3 2 ''Close'' = Inr (ma, sd, upper, lower)" and
    n: "\<forall>i<length [0, 3, 6 :: real]. if (2::int) \<le> 3 \<and> nat 3 - 1 \<le> i
              then \<exists>m g u l.
                     ma ! i = Some m \<and> sd ! i = Some g \<and> upper ! i = Some u \<and> lower ! i = Some l \<and>
                     m = window_mean [0, 3, 6] (nat 3) i \<and> g = window_sample_std [0, 3, 6] (nat 3) i \<and>
                     u = m + 2 * g \<and> l = m - 2 * g \<and> u - m = m - l
              else upper ! i = None \<and> lower ! i = None"
    by blast
  from n [rule_format, of 2] m g
  have "ma ! 2 = Some 3 \<and> sd ! 2 = Some 3 \<and> upper ! 2 = Some 9 \<and> lower ! 2 = Some (- 3)"
    by auto
  moreover from n [rule_format, of 1] have "upper ! 1 = None \<and> lower ! 1 = None"
    by simp
  ultimately show ?thesis using r by blast
qed

section \<open>Relative strength index\<close>

lemma diff_Some_nth:
  "j < length xs \<Longrightarrow>
   diff (map Some xs) ! j = (if j = 0 then None else Some (xs ! j - xs ! (j - 1)))"
  by (simp add: diff_def opt_sub_def)

lemma length_diff [simp]: "length (diff s) = length s"
  by (simp add: diff_def)

lemma gain_raw:
  "where_series (diff (map Some xs)) (series_gt (diff (map Some xs)) 0) 0
     = map Some (map (step_gain xs) [0..<length xs])"
  by (rule nth_equalityI)
     (simp_all add: where_series_def series_gt_def diff_Some_nth step_gain_def)

lemma loss_raw:
  "series_neg (where_series (diff (map Some xs)) (series_lt (diff (map Some xs)) 0) 0)
     = map Some (map (step_loss xs) [0..<length xs])"
  by (rule nth_equalityI)
     (simp_all add: where_series_def series_lt_def series_neg_def diff_Some_nth step_loss_def)

lemma rolling_mean_map_nth:
  assumes "i < n"
  shows "rolling_mean (w, map Some (map f [0..<n])) ! i =
     (if 0 < w \<and> w - 1 \<le> i then Some ((\<Sum>j = Suc i - w..i. f j) / real w) else None)"
proof -
  have "(\<Sum>j = Suc i - w..i. map f [0..<n] ! j) = (\<Sum>j = Suc i - w..i. f j)"
    using assms by (intro sum.cong) auto
  then show ?thesis
    using assms rolling_mean_nth [of i "map f [0..<n]" w] by simp
qed

lemma step_gain_nonneg: "0 \<le> step_gain xs j"
  by (simp add: step_gain_def)

lemma step_loss_nonneg: "0 \<le> step_loss xs j"
  by (simp add: step_loss_def)

lemma avg_gain_nonneg: "0 \<le> avg_gain xs p i"
  by (simp add: avg_gain_def sum_nonneg step_gain_nonneg)

lemma avg_loss_nonneg: "0 \<le> avg_loss xs p i"
  by (simp add: avg_loss_def sum_nonneg step_loss_nonneg)

lemma rsi_value_bounds:
  fixes g l :: real
  assumes "0 \<le> g" and "0 < l"
  shows "0 \<le> 100 - 100 / (1 + g / l)" and "100 - 100 / (1 + g / l) \<le> 100"
proof -
  define q where "q = 1 + g / l"
  have q: "1 \<le> q" using assms by (simp add: q_def)
  then have "0 < q" by simp
  then have "100 / q \<le> 100" and "0 \<le> 100 / q"
    using q by (simp_all add: pos_divide_le_eq)
  then have "100 / (1 + g / l) \<le> 100" and "0 \<le> 100 / (1 + g / l)"
    by (simp_all only: q_def)
  then show "0 \<le> 100 - 100 / (1 + g / l)" and "100 - 100 / (1 + g / l) \<le> 100"
    by simp_all
qed

lemma rsi_gain_nth:
  assumes "i < length xs"
  shows "rolling_mean (nat p, map Some (map (step_gain xs) [0..<length xs])) ! i
           = (if 1 \<le> p \<and> nat p - 1 \<le> i then Some (avg_gain xs (nat p) i) else None)"
  using assms rolling_mean_map_nth [of i "length xs" "nat p" "step_gain xs"]
  by (auto simp: avg_gain_def simp del: map_map)

lemma rsi_loss_nth:
  assumes "i < length xs"
  shows "rolling_mean (nat p, map Some (map (step_loss xs) [0..<length xs])) ! i
           = (if 1 \<le> p \<and> nat p - 1 \<le> i then Some (avg_loss xs (nat p) i) else None)"
  using assms rolling_mean_map_nth [of i "length xs" "nat p" "step_loss xs"]
  by (auto simp: avg_loss_def simp del: map_map)

text \<open>The result of \<open>rsi_series\<close> on a column without missing values, in closed form.\<close>

lemma rsi_series_Some:
  assumes "map_of (columns d) column = Some (map Some xs)" and "0 \<le> p"
  shows "rsi_series d p column =
     (let gain = rolling_mean (nat p, map Some (map (step_gain xs) [0..<length xs]));
          loss = rolling_mean (nat p, map Some (map (step_loss xs) [0..<length xs]));
          rs = map2 fdiv (map of_opt gain) (map of_opt loss);
          rsi = map (\<lambda>r. fsub (Fin 100) (fdiv (Fin 100) (fadd (Fin 1) r))) rs
      in Inr (gain, loss, rs, rsi))"
  using assms
  by (simp only: rsi_series_def getitem_def option.case sum.case Let_def gain_raw loss_raw
        rolling_def) simp

text \<open>
  C6. For a column without missing values and an accepted period \<open>p \<ge> 0\<close>, lines 86 to 94
  of \<open>add_rsi\<close> compute, at every index \<open>i\<close>: the average gain and average loss as the
  unweighted means of the one-step gains and losses over the \<open>p\<close> indices ending at \<open>i\<close>
  (NaN while \<open>i < p - 1\<close>; the undefined first difference counts as 0),
  \<open>rs[i] = gain[i] / loss[i]\<close> and \<open>rsi[i] = 100 - 100 / (1 + rs[i])\<close>. Every RSI value that is
  a number and whose average loss is not zero equals
  \<open>100 - 100 / (1 + avgGain / avgLoss)\<close> and lies in \<open>[0, 100]\<close>.
\<close>

theorem rsi_formula_and_range:
  assumes "map_of (columns d) column = Some (map Some xs)" and "0 \<le> p"
  shows "\<exists>gain loss rs rsi.
           rsi_series d p column = Inr (gain, loss, rs, rsi) \<and> length rsi = length xs \<and>
           (\<forall>i<length xs.
              gain ! i = (if 1 \<le> p \<and> nat p - 1 \<le> i then Some (avg_gain xs (nat p) i) else None) \<and>
              loss ! i = (if 1 \<le> p \<and> nat p - 1 \<le> i then Some (avg_loss xs (nat p) i) else None) \<and>
              rs ! i = fdiv (of_opt (gain ! i)) (of_opt (loss ! i)) \<and>
              rsi ! i = fsub (Fin 100) (fdiv (Fin 100) (fadd (Fin 1) (rs ! i))) \<and>
              (\<forall>r. rsi ! i = Fin r \<and> loss ! i \<noteq> Some 0 \<longrightarrow>
                 r = 100 - 100 / (1 + avg_gain xs (nat p) i / avg_loss xs (nat p) i) \<and>
                 0 \<le> r \<and> r \<le> 100))"
proof -
  let ?gain = "rolling_mean (nat p, map Some (map (step_gain xs) [0..<length xs]))"
  let ?loss = "rolling_mean (nat p, map Some (map (step_loss xs) [0..<length xs]))"
  let ?rs = "map2 fdiv (map of_opt ?gain) (map of_opt ?loss)"
  let ?rsi = "map (\<lambda>r. fsub (Fin 100) (fdiv (Fin 100) (fadd (Fin 1) r))) ?rs"
  have r: "rsi_series d p column = Inr (?gain, ?loss, ?rs, ?rsi)"
    using rsi_series_Some [OF assms] by (simp only: Let_def)
  have len: "length ?rsi = length xs" by simp
  have pt: "?gain ! i = (if 1 \<le> p \<and> nat p - 1 \<le> i then Some (avg_gain xs (nat p) i) else None) \<and>
            ?loss ! i = (if 1 \<le> p \<and> nat p - 1 \<le> i then Some (avg_loss xs (nat p) i) else None) \<and>
            ?rs ! i = fdiv (of_opt (?gain ! i)) (of_opt (?loss ! i)) \<and>
            ?rsi ! i = fsub (Fin 100) (fdiv (Fin 100) (fadd (Fin 1) (?rs ! i))) \<and>
            (\<forall>r. ?rsi ! i = Fin r \<and> ?loss ! i \<noteq> Some 0 \<longrightarrow>
                 r = 100 - 100 / (1 + avg_gain xs (nat p) i / avg_loss xs (nat p) i) \<and>
                 0 \<le> r \<and> r \<le> 100)" if i: "i < length xs" for i
  proof -
    have g: "?gain ! i = (if 1 \<le> p \<and> nat p - 1 \<le> i then Some (avg_gain xs (nat p) i) else None)"
      using i by (rule rsi_gain_nth)
    have l: "?loss ! i = (if 1 \<le> p \<and> nat p - 1 \<le> i then Some (avg_loss xs (nat p) i) else None)"
      using i by (rule rsi_loss_nth)
    have rs: "?rs ! i = fdiv (of_opt (?gain ! i)) (of_opt (?loss ! i))"
      using i by simp
    have rsi: "?rsi ! i = fsub (Fin 100) (fdiv (Fin 100) (fadd (Fin 1) (?rs ! i)))"
      using i by simp
    have b: "r = 100 - 100 / (1 + avg_gain xs (nat p) i / avg_loss xs (nat p) i) \<and> 0 \<le> r \<and> r \<le> 100"
      if v: "?rsi ! i = Fin r" and nz: "?loss ! i \<noteq> Some 0" for r
    proof (cases "1 \<le> p \<and> nat p - 1 \<le> i")
      case True
      let ?g = "avg_gain xs (nat p) i" and ?l = "avg_loss xs (nat p) i"
      from True g l have gl: "?gain ! i = Some ?g" "?loss ! i = Some ?l" by simp_all
      with nz have "?l \<noteq> 0" by simp
      with avg_loss_nonneg [of xs "nat p" i] have lpos: "0 < ?l" by simp
      have gpos: "0 \<le> ?g" by (rule avg_gain_nonneg)
      have "1 + ?g / ?l \<noteq> 0" using gpos lpos by (simp add: add_nonneg_eq_0_iff)
      then have "?rsi ! i = Fin (100 - 100 / (1 + ?g / ?l))"
        using lpos by (simp only: rsi rs gl) (simp add: of_opt_def fsub_def)
      with v have "r = 100 - 100 / (1 + ?g / ?l)" by simp
      with rsi_value_bounds [OF gpos lpos] show ?thesis by simp
    next
      case False
      with g have "?gain ! i = None" by simp
      then have "?rsi ! i = NaN"
        by (simp only: rsi rs) (simp add: of_opt_def fsub_def)
      with v show ?thesis by simp
    qed
    from g l rs rsi b show ?thesis by blast
  qed
  show ?thesis
    apply (rule exI [of _ ?gain])
    apply (rule exI [of _ ?loss])
    apply (rule exI [of _ ?rs])
    apply (rule exI [of _ ?rsi])
    using r len pt by blast
qed

theorem rsi_formula_and_range_witness:
  "\<exists>gain loss rs rsi.
     rsi_series \<lparr>index = RangeIndex 3, columns = [(''Close'', map Some [1, 3, 2])]\<rparr> 2 ''Close''
       = Inr (gain, loss, rs, rsi) \<and>
     gain ! 2 = Some 1 \<and> loss ! 2 = Some (1 / 2) \<and> rs ! 2 = Fin 2 \<and> rsi ! 2 = Fin (200 / 3) \<and>
     gain ! 0 = None \<and> rsi ! 0 = NaN"
proof -
  let ?d = "\<lparr>index = RangeIndex 3, columns = [(''Close'', map Some [1, 3, 2 :: real])]\<rparr>"
  have g: "avg_gain [1, 3, 2] 2 2 = 1"
    by (simp add: avg_gain_def step_gain_def atLeastAtMost_upt upt_conv_Cons)
  have l: "avg_loss [1, 3, 2] 2 2 = 1 / 2"
    by (simp add: avg_loss_def step_loss_def atLeastAtMost_upt upt_conv_Cons)
  have p1: "map_of (columns ?d) ''Close'' = Some (map Some [1, 3, 2])" by simp
  have p2: "(0::int) \<le> 2" by simp
  from rsi_formula_and_range [OF p1 p2]
  obtain gain loss rs rsi where
    r: "rsi_series ?d 2 ''Close'' = Inr (gain, loss, rs, rsi)" and
    n: "\<forall>i<length [1, 3, 2 :: real].
          gain ! i = (if (1::int) \<le> 2 \<and> nat 2 - 1 \<le> i then Some (avg_gain [1, 3, 2] (nat 2) i) else None) \<and>
          loss ! i = (if (1::int) \<le> 2 \<and> nat 2 - 1 \<le> i then Some (avg_loss [1, 3, 2] (nat 2) i) else None) \<and>
          rs ! i = fdiv (of_opt (gain ! i)) (of_opt (loss ! i)) \<and>
          rsi ! i = fsub (Fin 100) (fdiv (Fin 100) (fadd (Fin 1) (rs ! i)))"
    by blast
  from n [rule_format, of 2] g l
  have "gain ! 2 = Some 1 \<and> loss ! 2 = Some (1 / 2) \<and> rs ! 2 = Fin 2 \<and> rsi ! 2 = Fin (200 / 3)"
    by (simp add: of_opt_def fsub_def)
  moreover from n [rule_format, of 0] have "gain ! 0 = None \<and> rsi ! 0 = NaN"
    by (simp add: of_opt_def fsub_def)
  ultimately show ?thesis using r by blast
qed

section \<open>Division by a zero average loss\<close>

lemma step_loss_sorted:
  assumes "sorted_wrt (<) xs" and "j < length xs"
  shows "step_loss xs j = 0"
proof (cases j)
  case 0
  then show ?thesis by (simp add: step_loss_def)
next
  case (Suc k)
  with assms have "xs ! k < xs ! j"
    by (simp add: sorted_wrt_nth_less)
  with Suc show ?thesis by (simp add: step_loss_def)
qed

lemma step_gain_sorted:
  assumes "sorted_wrt (<) xs" and "j < length xs" and "0 < j"
  shows "0 < step_gain xs j"
proof -
  from assms have "xs ! (j - 1) < xs ! j"
    by (simp add: sorted_wrt_nth_less)
  with assms(3) show ?thesis by (simp add: step_gain_def)
qed

lemma avg_loss_sorted:
  assumes "sorted_wrt (<) xs" and "i < length xs"
  shows "avg_loss xs p i = 0"
proof -
  have "(\<Sum>j = i + 1 - p..i. step_loss xs j) = 0"
    using assms by (intro sum.neutral) (simp add: step_loss_sorted)
  then show ?thesis by (simp add: avg_loss_def)
qed

lemma avg_gain_sorted:
  assumes "sorted_wrt (<) xs" and "i < length xs" and "0 < i" and "0 < p"
  shows "0 < avg_gain xs p i"
proof -
  have "0 < (\<Sum>j = i + 1 - p..i. step_gain xs j)"
  proof (rule sum_pos2 [of _ i])
    show "0 < step_gain xs i" using assms by (simp add: step_gain_sorted)
  qed (use assms in \<open>auto simp: step_gain_nonneg\<close>)
  with assms(4) show ?thesis by (simp add: avg_gain_def)
qed

text \<open>
  C7. On a strictly increasing column of length at least \<open>period + 1\<close> (with
  \<open>period \<ge> 1\<close>), at every index \<open>i \<ge> period\<close> the average loss computed on line 90 of
  \<open>add_rsi\<close> is exactly 0 while the average gain is positive, and line 93 still divides:
  \<open>rs[i]\<close> is the quotient by that zero, which is an infinity and not a number, and
  \<open>rsi[i]\<close> comes out as 100. Such indices exist, the last one for instance.
\<close>

theorem rsi_divides_by_zero_loss:
  assumes "map_of (columns d) column = Some (map Some xs)"
    and "sorted_wrt (<) xs" and "1 \<le> period" and "nat period + 1 \<le> length xs"
  shows "\<exists>gain loss rs rsi.
           rsi_series d period column = Inr (gain, loss, rs, rsi) \<and>
           nat period \<le> length xs - 1 \<and>
           (\<forall>i. nat period \<le> i \<and> i < length xs \<longrightarrow>
              loss ! i = Some 0 \<and>
              (\<exists>g. 0 < g \<and> gain ! i = Some g \<and> rs ! i = fdiv (Fin g) (Fin 0)) \<and>
              (rs ! i = PInf \<or> rs ! i = NInf) \<and>
              rsi ! i = Fin 100)"
proof -
  let ?gain = "rolling_mean (nat period, map Some (map (step_gain xs) [0..<length xs]))"
  let ?loss = "rolling_mean (nat period, map Some (map (step_loss xs) [0..<length xs]))"
  let ?rs = "map2 fdiv (map of_opt ?gain) (map of_opt ?loss)"
  let ?rsi = "map (\<lambda>r. fsub (Fin 100) (fdiv (Fin 100) (fadd (Fin 1) r))) ?rs"
  have "0 \<le> period" using assms(3) by simp
  from rsi_series_Some [OF assms(1) this]
  have r: "rsi_series d period column = Inr (?gain, ?loss, ?rs, ?rsi)"
    by (simp only: Let_def)
  have ex: "nat period \<le> length xs - 1" using assms(4) by simp
  have pt: "?loss ! i = Some 0 \<and>
            (\<exists>g. 0 < g \<and> ?gain ! i = Some g \<and> ?rs ! i = fdiv (Fin g) (Fin 0)) \<and>
            (?rs ! i = PInf \<or> ?rs ! i = NInf) \<and> ?rsi ! i = Fin 100"
    if i: "nat period \<le> i \<and> i < length xs" for i
  proof -
    from i assms(3) have w: "1 \<le> period \<and> nat period - 1 \<le> i" and ipos: "0 < i" by auto
    from i have il: "i < length xs" by simp
    let ?g = "avg_gain xs (nat period) i"
    have gpos: "0 < ?g"
      using assms(2) il ipos assms(3) by (intro avg_gain_sorted) simp_all
    have g: "?gain ! i = Some ?g"
      using rsi_gain_nth [OF il, of period] w by simp
    have l: "?loss ! i = Some 0"
      using rsi_loss_nth [OF il, of period] w avg_loss_sorted [OF assms(2) il] by simp
    have "?rs ! i = fdiv (of_opt (?gain ! i)) (of_opt (?loss ! i))"
      using il by simp
    then have rs: "?rs ! i = fdiv (Fin ?g) (Fin 0)"
      by (simp only: g l) (simp add: of_opt_def)
    then have rs': "?rs ! i = PInf" using gpos by simp
    have "?rsi ! i = fsub (Fin 100) (fdiv (Fin 100) (fadd (Fin 1) (?rs ! i)))"
      using il by simp
    then have "?rsi ! i = Fin 100"
      by (simp only: rs') (simp add: fsub_def)
    with l g gpos rs rs' show ?thesis by blast
  qed
  show ?thesis
    apply (rule exI [of _ ?gain])
    apply (rule exI [of _ ?loss])
    apply (rule exI [of _ ?rs])
    apply (rule exI [of _ ?rsi])
    using r ex pt by blast
qed

theorem rsi_divides_by_zero_loss_witness:
  "\<exists>gain loss rs rsi.
     rsi_series \<lparr>index = RangeIndex 3, columns = [(''Close'', map Some [1, 2, 3])]\<rparr> 2 ''Close''
       = Inr (gain, loss, rs, rsi) \<and>
     loss ! 2 = Some 0 \<and> (\<exists>g. 0 < g \<and> gain ! 2 = Some g \<and> rs ! 2 = fdiv (Fin g) (Fin 0)) \<and>
     (rs ! 2 = PInf \<or> rs ! 2 = NInf) \<and> rsi ! 2 = Fin 100"
proof -
  let ?d = "\<lparr>index = RangeIndex 3, columns = [(''Close'', map Some [1, 2, 3 :: real])]\<rparr>"
  have p1: "map_of (columns ?d) ''Close'' = Some (map Some [1, 2, 3])" by simp
  have p2: "sorted_wrt (<) [1, 2, 3 :: real]" by simp
  have p3: "(1::int) \<le> 2" by simp
  have p4: "nat 2 + 1 \<le> length [1, 2, 3 :: real]" by simp
  from rsi_divides_by_zero_loss [OF p1 p2 p3 p4]
  obtain gain loss rs rsi where
    r: "rsi_series ?d 2 ''Close'' = Inr (gain, loss, rs, rsi)" and
    n: "\<forall>i. nat 2 \<le> i \<and> i < length [1, 2, 3 :: real] \<longrightarrow>
              loss ! i = Some 0 \<and>
              (\<exists>g. 0 < g \<and> gain ! i = Some g \<and> rs ! i = fdiv (Fin g) (Fin 0)) \<and>
              (rs ! i = PInf \<or> rs ! i = NInf) \<and>
              rsi ! i = Fin 100"
    by blast
  have "nat 2 \<le> (2::nat) \<and> 2 < length [1, 2, 3 :: real]" by simp
  with n have "loss ! 2 = Some 0 \<and>
              (\<exists>g. 0 < g \<and> gain ! 2 = Some g \<and> rs ! 2 = fdiv (Fin g) (Fin 0)) \<and>
              (rs ! 2 = PInf \<or> rs ! 2 = NInf) \<and>
              rsi ! 2 = Fin 100"
    by blast
  with r show ?thesis by blast
qed

section \<open>Charts without a figure\<close>

text \<open>
  C8. On a chart whose \<open>fig\<close> is \<open>None\<close>, each of the five indicator functions returns the
  chart it was given, whatever the period and column arguments are (nothing else is looked
  at), and each of \<open>add_range_slider\<close>, \<open>add_zoom_pan\<close> and \<open>add_tooltips\<close> returns it too;
  data, title and fig are therefore unchanged and no error is raised.
\<close>

theorem no_figure_returns_chart_unchanged:
  assumes "fig c = None"
  shows "add_sma c period column = Inr c \<and>
         add_ema c period column = Inr c \<and>
         add_rsi c period column = Inr c \<and>
         add_macd c fast_period slow_period signal_period column = Inr c \<and>
         add_bollinger_bands c period std_dev column = Inr c \<and>
         add_range_slider c = c \<and> add_zoom_pan c = c \<and> add_tooltips c = c"
  using assms
  by (simp add: add_sma_def add_ema_def add_rsi_def add_macd_def add_bollinger_bands_def
        add_range_slider_def add_zoom_pan_def add_tooltips_def truthy_def)

theorem no_figure_returns_chart_unchanged_witness:
  "add_sma (Chart \<lparr>index = RangeIndex 0, columns = []\<rparr> None) (- 5) ''nope''
     = Inr \<lparr>data = \<lparr>index = RangeIndex 0, columns = []\<rparr>, title = None, fig = None\<rparr> \<and>
   add_macd (Chart \<lparr>index = RangeIndex 0, columns = []\<rparr> None) 0 0 0 ''nope''
     = Inr \<lparr>data = \<lparr>index = RangeIndex 0, columns = []\<rparr>, title = None, fig = None\<rparr> \<and>
   add_tooltips (Chart \<lparr>index = RangeIndex 0, columns = []\<rparr> None)
     = \<lparr>data = \<lparr>index = RangeIndex 0, columns = []\<rparr>, title = None, fig = None\<rparr>"
proof -
  let ?c = "Chart \<lparr>index = RangeIndex 0, columns = []\<rparr> None"
  have "fig ?c = None" by (simp add: Chart_def)
  from no_figure_returns_chart_unchanged [OF this, of "- 5" "''nope''" 0 0 0 0]
  show ?thesis by (simp add: Chart_def)
qed

section \<open>Candlestick charts\<close>

lemma getitem_present:
  assumes "k \<in> fst ` set (columns d)"
  shows "\<exists>s. getitem d k = Inr s \<and> map_of (columns d) k = Some s"
proof -
  from assms have "map_of (columns d) k \<noteq> None"
    by (simp add: map_of_eq_None_iff)
  then show ?thesis by (auto simp: getitem_def)
qed

lemma addressed_axis_title: "addressed_axis ''title'' = None"
  by (simp add: addressed_axis_def)

lemma addressed_axis_xaxis_title: "addressed_axis ''xaxis_title'' = None"
  by (simp add: addressed_axis_def)

lemma addressed_axis_yaxis_title: "addressed_axis ''yaxis_title'' = None"
  by (simp add: addressed_axis_def)

lemma addressed_axis_showlegend: "addressed_axis ''showlegend'' = None"
  by (simp add: addressed_axis_def)

lemma addressed_axis_rangeslider: "addressed_axis ''xaxis_rangeslider_visible'' = None"
  by (simp add: addressed_axis_def)

lemma addressed_axis_yaxis2_title: "addressed_axis ''yaxis2_title'' = Some 2"
  by (simp add: addressed_axis_def digit_val_def)

lemmas addressed_axis_keys =
  addressed_axis_title addressed_axis_xaxis_title addressed_axis_yaxis_title
  addressed_axis_showlegend addressed_axis_rangeslider addressed_axis_yaxis2_title

text \<open>
  With \<open>volume = True\<close> the function works as described: on data that has the columns
  Open, High, Low and Close it returns a chart whose figure has a grid of 2 rows with heights
  0.7 and 0.3 (also when there is no Volume column); the first trace is the candlestick over
  the four columns, in cell (1, 1), and a second trace exists exactly when Volume is a
  column: the bar trace of that column in cell (2, 1).
\<close>

lemma candlestick_with_volume:
  assumes "{''Open'', ''High'', ''Low'', ''Close''} \<subseteq> fst ` set (columns d)"
  shows "\<exists>f g op hi lo cl.
           create_candlestick d ttl True = Inr \<lparr>data = d, title = ttl, fig = Some f\<rparr> \<and>
           grid f = Some g \<and> nrows g = 2 \<and> ncols g = 1 \<and> row_heights g = [0.7, 0.3] \<and>
           getitem d ''Open'' = Inr op \<and> getitem d ''High'' = Inr hi \<and>
           getitem d ''Low'' = Inr lo \<and> getitem d ''Close'' = Inr cl \<and>
           traces f =
             (go_Candlestick [(''x'', PIndex (index d)), (''open'', PSeries op),
                              (''high'', PSeries hi), (''low'', PSeries lo),
                              (''close'', PSeries cl), (''name'', PStr ''OHLC'')], Some (1, 1))
             # (if ''Volume'' \<in> fst ` set (columns d)
                then [(go_Bar [(''x'', PIndex (index d)),
                               (''y'', PSeries (the (map_of (columns d) ''Volume''))),
                               (''name'', PStr ''Volume'')], Some (2, 1))]
                else [])"
proof -
  from assms obtain op hi lo cl where
    g: "getitem d ''Open'' = Inr op" "getitem d ''High'' = Inr hi"
       "getitem d ''Low'' = Inr lo" "getitem d ''Close'' = Inr cl"
    using getitem_present [of "''Open''" d] getitem_present [of "''High''" d]
      getitem_present [of "''Low''" d] getitem_present [of "''Close''" d]
    by auto
  show ?thesis
  proof (cases "''Volume'' \<in> fst ` set (columns d)")
    case True
    then obtain v where v: "getitem d ''Volume'' = Inr v" "map_of (columns d) ''Volume'' = Some v"
      using getitem_present [of "''Volume''" d] by auto
    with True g show ?thesis
      by (simp add: create_candlestick_def make_subplots_def add_trace_def check_cell_def
            update_layout_def assign_layout_def layout_key_ok_def axis_count_def
            addressed_axis_keys Chart_def go_Candlestick_def go_Bar_def Let_def)
  next
    case False
    with g show ?thesis
      by (simp add: create_candlestick_def make_subplots_def add_trace_def check_cell_def
            update_layout_def assign_layout_def layout_key_ok_def axis_count_def
            addressed_axis_keys Chart_def go_Candlestick_def go_Bar_def Let_def)
  qed
qed

text \<open>
  With \<open>volume = False\<close> the figure has one row and one y axis, and line 105 still passes
  the keyword \<open>yaxis2_title\<close> (with the value \<open>None\<close>) to \<open>update_layout\<close>, which rejects it:
  whatever the data, no chart is returned.
\<close>

lemma update_layout_one_row_rejects_yaxis2:
  assumes "grid f = Some g" and "nrows g = 1" and "ncols g = 1"
  shows "update_layout f [(''title'', t), (''yaxis_title'', y), (''yaxis2_title'', v),
                          (''xaxis_rangeslider_visible'', r)]
           = Inl (ValueError ''Invalid property specified for object of type Layout'')"
  using assms
  by (simp add: update_layout_def layout_key_ok_def axis_count_def addressed_axis_keys)

lemma create_candlestick_without_volume_never_returns:
  "create_candlestick d ttl False \<noteq> Inr c"
proof -
  have "update_layout f [(''title'', pstr_opt ttl), (''yaxis_title'', PStr ''Price''),
                         (''yaxis2_title'', PNone), (''xaxis_rangeslider_visible'', PBool False)]
          \<noteq> Inr f'"
    if "grid f = Some g" and "nrows g = 1" and "ncols g = 1" for f f' g
    using update_layout_one_row_rejects_yaxis2 [OF that] by simp
  then show ?thesis
    by (auto simp: create_candlestick_def make_subplots_def add_trace_def check_cell_def Let_def
          split: sum.splits)
qed

text \<open>
  C9. For \<open>volume = False\<close> the claim promises a figure of exactly 1 row with the
  candlestick trace, and the docstring a returned chart. On the frame with the one row
  Open 1, High 2, Low 0, Close 1 the function instead builds the one-row figure, adds the
  candlestick trace and then raises \<open>ValueError\<close> at \<open>update_layout\<close> (lines 102 to 107),
  because \<open>yaxis2_title\<close> reaches into a second y axis that a one-row figure does not have;
  no chart is returned.
\<close>

theorem create_candlestick_without_volume_raises:
  "create_candlestick
      \<lparr>index = RangeIndex 1,
       columns = [(''Open'', [Some 1]), (''High'', [Some 2]), (''Low'', [Some 0]),
                  (''Close'', [Some 1])]\<rparr> None False
     = Inl (ValueError ''Invalid property specified for object of type Layout'')"
  by (simp add: create_candlestick_def make_subplots_def getitem_def add_trace_def
        check_cell_def update_layout_def layout_key_ok_def axis_count_def addressed_axis_keys)

section \<open>ROC curves\<close>

text \<open>
  C10. Whenever \<open>roc_curve\<close> returns \<open>(fpr, tpr, thresholds)\<close> of equal lengths for the two
  arrays and \<open>auc\<close> returns, \<open>plot_roc_curve\<close> returns a chart whose figure holds exactly two
  traces: first the scatter trace with \<open>x = fpr\<close> and \<open>y = tpr\<close>, then the scatter trace from
  \<open>(0, 0)\<close> to \<open>(1, 1)\<close>; the chart's data is the frame with the two columns \<open>fpr\<close> and \<open>tpr\<close>
  that hold these sequences.
\<close>

theorem roc_chart_traces_and_data:
  assumes "roc_curve y_true y_score = Inr (fpr, tpr, thresholds)"
    and "auc fpr tpr = Inr roc_auc"
    and "length fpr = length tpr"
  shows "\<exists>f t1 t2.
           plot_roc_curve roc_curve auc fmt_2f y_true y_score ttl
             = Inr \<lparr>data = \<lparr>index = RangeIndex (length fpr),
                             columns = [(''fpr'', fpr), (''tpr'', tpr)]\<rparr>,
                    title = ttl, fig = Some f\<rparr> \<and>
           traces f = [(t1, None), (t2, None)] \<and>
           ttype t1 = ''scatter'' \<and>
           map_of (props t1) ''x'' = Some (PSeries fpr) \<and>
           map_of (props t1) ''y'' = Some (PSeries tpr) \<and>
           ttype t2 = ''scatter'' \<and>
           map_of (props t2) ''x'' = Some (PList [PNum 0, PNum 1]) \<and>
           map_of (props t2) ''y'' = Some (PList [PNum 0, PNum 1])"
  using assms
  by (simp add: plot_roc_curve_def add_trace_def check_cell_def go_Figure_def go_Scatter_def
        update_layout_def assign_layout_def layout_key_ok_def addressed_axis_keys
        pd_DataFrame_def Chart_def Let_def)

theorem roc_chart_traces_and_data_witness:
  "\<exists>f t1 t2.
     plot_roc_curve
         (\<lambda>(yt :: nat list) ys.
            if length yt = length ys
            then Inr ([Some 0, Some 0, Some 1], [Some 0, Some 1, Some 1],
                      [None, Some (9 / 10), Some (1 / 10)])
            else Inl (ValueError ''inconsistent numbers of samples''))
         (\<lambda>x y. if length x = length y then Inr (Some 1) else Inl (ValueError ''shape''))
         (\<lambda>a. ''1.00'') [0, 1] [Some (1 / 10), Some (9 / 10)] None
       = Inr \<lparr>data = \<lparr>index = RangeIndex 3,
                       columns = [(''fpr'', [Some 0, Some 0, Some 1]),
                                  (''tpr'', [Some 0, Some 1, Some 1])]\<rparr>,
              title = None, fig = Some f\<rparr> \<and>
     traces f = [(t1, None), (t2, None)] \<and>
     map_of (props t1) ''x'' = Some (PSeries [Some 0, Some 0, Some 1]) \<and>
     map_of (props t1) ''y'' = Some (PSeries [Some 0, Some 1, Some 1]) \<and>
     map_of (props t2) ''x'' = Some (PList [PNum 0, PNum 1]) \<and>
     map_of (props t2) ''y'' = Some (PList [PNum 0, PNum 1])"
proof -
  let ?roc = "\<lambda>(yt :: nat list) (ys :: series).
                if length yt = length ys
                then (Inr ([Some 0, Some 0, Some 1], [Some 0, Some 1, Some 1],
                           [None, Some (9 / 10), Some (1 / 10)]) :: error + series \<times> series \<times> series)
                else Inl (ValueError ''inconsistent numbers of samples'')"
  let ?auc = "\<lambda>(x :: series) (y :: series).
                if length x = length y then (Inr (Some 1) :: error + real option)
                else Inl (ValueError ''shape'')"
  have p1: "?roc [0, 1] [Some (1 / 10), Some (9 / 10)]
              = Inr ([Some 0, Some 0, Some 1], [Some 0, Some 1, Some 1],
                     [None, Some (9 / 10), Some (1 / 10)])" by simp
  have p2: "?auc [Some 0, Some 0, Some 1] [Some 0, Some 1, Some 1] = Inr (Some 1)" by simp
  have p3: "length [Some 0, Some 0, Some (1::real)] = length [Some 0, Some 1, Some (1::real)]" by simp
  from roc_chart_traces_and_data [where roc_curve = ?roc and auc = ?auc
      and fmt_2f = "\<lambda>a. ''1.00''" and ttl = None, OF p1 p2 p3]
  obtain f t1 t2 where
    "plot_roc_curve ?roc ?auc (\<lambda>a. ''1.00'') [0, 1] [Some (1 / 10), Some (9 / 10)] None
       = Inr \<lparr>data = \<lparr>index = RangeIndex (length [Some 0, Some 0, Some (1::real)]),
                       columns = [(''fpr'', [Some 0, Some 0, Some 1]),
                                  (''tpr'', [Some 0, Some 1, Some 1])]\<rparr>,
              title = None, fig = Some f\<rparr>"
    "traces f = [(t1, None), (t2, None)]"
    "map_of (props t1) ''x'' = Some (PSeries [Some 0, Some 0, Some 1])"
    "map_of (props t1) ''y'' = Some (PSeries [Some 0, Some 1, Some 1])"
    "map_of (props t2) ''x'' = Some (PList [PNum 0, PNum 1])"
    "map_of (props t2) ''y'' = Some (PList [PNum 0, PNum 1])"
    by blast
  then show ?thesis by auto
qed

section \<open>The unbound name \<open>go\<close>\<close>

lemma go_unbound: "load_global technical_globals ''go'' = Inl (NameError ''go'')"
  by (simp add: load_global_def technical_globals_def)

text \<open>
  The statements before the plotting call go through on a column of the frame when every
  period is at least 1 and below \<open>2^63\<close>, the range of the 64-bit window of pandas.
\<close>

lemma sma_series_returns:
  assumes "column \<in> fst ` set (columns d)" and "1 \<le> period" and "period < 2 ^ 63"
  shows "\<exists>s. sma_series d period column = Inr s"
  using getitem_present [OF assms(1)] assms(2)
  by (auto simp: sma_series_def rolling_def)

lemma ema_series_returns:
  assumes "column \<in> fst ` set (columns d)" and "1 \<le> period" and "period < 2 ^ 63"
  shows "\<exists>s. ema_series d period column = Inr s"
  using getitem_present [OF assms(1)] assms(2)
  by (auto simp: ema_series_def ewm_span_mean_def ewm_def)

lemma rsi_series_returns:
  assumes "column \<in> fst ` set (columns d)" and "1 \<le> period" and "period < 2 ^ 63"
  shows "\<exists>s. rsi_series d period column = Inr s"
  using getitem_present [OF assms(1)] assms(2)
  by (auto simp: rsi_series_def rolling_def Let_def)

lemma bollinger_series_returns:
  assumes "column \<in> fst ` set (columns d)" and "1 \<le> period" and "period < 2 ^ 63"
  shows "\<exists>s. bollinger_series d period std_dev column = Inr s"
  using getitem_present [OF assms(1)] assms(2)
  by (auto simp: bollinger_series_def rolling_def Let_def)

lemma macd_series_returns:
  assumes "column \<in> fst ` set (columns d)"
    and "1 \<le> fast_period" and "fast_period < 2 ^ 63"
    and "1 \<le> slow_period" and "slow_period < 2 ^ 63"
    and "1 \<le> signal_period" and "signal_period < 2 ^ 63"
  shows "\<exists>s. macd_series d fast_period slow_period signal_period column = Inr s"
  using getitem_present [OF assms(1)] assms(2) assms(4) assms(6)
  by (auto simp: macd_series_def ewm_span_mean_def ewm_def Let_def)

text \<open>
  With a figure, each function ends in the error of its series computation or in the
  \<open>NameError\<close> of the plotting call.
\<close>

lemma add_sma_with_fig:
  "fig c = Some f \<Longrightarrow>
   add_sma c period column =
     (case sma_series (data c) period column of Inl e \<Rightarrow> Inl e | Inr s \<Rightarrow> Inl (NameError ''go''))"
  by (simp add: add_sma_def truthy_def fig_attr_def go_unbound split: sum.splits)

lemma add_ema_with_fig:
  "fig c = Some f \<Longrightarrow>
   add_ema c period column =
     (case ema_series (data c) period column of Inl e \<Rightarrow> Inl e | Inr s \<Rightarrow> Inl (NameError ''go''))"
  by (simp add: add_ema_def truthy_def fig_attr_def go_unbound split: sum.splits)

lemma add_rsi_with_fig:
  "fig c = Some f \<Longrightarrow>
   add_rsi c period column =
     (case rsi_series (data c) period column of Inl e \<Rightarrow> Inl e | Inr s \<Rightarrow> Inl (NameError ''go''))"
  by (simp add: add_rsi_def truthy_def fig_attr_def go_unbound split: sum.splits prod.splits)

lemma add_macd_with_fig:
  "fig c = Some f \<Longrightarrow>
   add_macd c fast_period slow_period signal_period column =
     (case macd_series (data c) fast_period slow_period signal_period column of
        Inl e \<Rightarrow> Inl e | Inr s \<Rightarrow> Inl (NameError ''go''))"
  by (simp add: add_macd_def truthy_def fig_attr_def go_unbound split: sum.splits prod.splits)

lemma add_bollinger_bands_with_fig:
  "fig c = Some f \<Longrightarrow>
   add_bollinger_bands c period std_dev column =
     (case bollinger_series (data c) period std_dev column of
        Inl e \<Rightarrow> Inl e | Inr s \<Rightarrow> Inl (NameError ''go''))"
  by (simp add: add_bollinger_bands_def truthy_def fig_attr_def go_unbound
        split: sum.splits prod.splits)

lemma raises_when_reached:
  assumes "r = (case s of Inl e \<Rightarrow> Inl e | Inr v \<Rightarrow> Inl (NameError ''go''))"
  shows "(\<forall>c'. r \<noteq> Inr c') \<and> ((\<exists>v. s = Inr v) \<longrightarrow> r = Inl (NameError ''go''))"
  using assms by (cases s) auto

text \<open>
  C1, amended. On a chart whose \<open>fig\<close> is not \<open>None\<close> (which is the same as truthy), none of
  the five indicator functions ever returns a chart, so no indicator trace is ever added.
  Each raises the \<open>NameError\<close> for \<open>go\<close> when it reaches its first plotting call, and it
  reaches it whenever the column is a numeric column of \<open>chart.data\<close> and every period
  is at least 1 and below \<open>2^63\<close>. A \<open>NameError\<close> is raised only if \<open>fig\<close> is truthy.
\<close>

theorem indicators_raise_name_error:
  "(truthy (fig c) \<longleftrightarrow> fig c \<noteq> None) \<and>
   (truthy (fig c) \<longrightarrow>
      (\<forall>c'. add_sma c period column \<noteq> Inr c') \<and>
      (\<forall>c'. add_ema c period column \<noteq> Inr c') \<and>
      (\<forall>c'. add_rsi c period column \<noteq> Inr c') \<and>
      (\<forall>c'. add_macd c fast_period slow_period signal_period column \<noteq> Inr c') \<and>
      (\<forall>c'. add_bollinger_bands c period std_dev column \<noteq> Inr c')) \<and>
   (truthy (fig c) \<and> column \<in> fst ` set (columns (data c)) \<and>
    1 \<le> period \<and> period < 2 ^ 63 \<and> 1 \<le> fast_period \<and> fast_period < 2 ^ 63 \<and>
    1 \<le> slow_period \<and> slow_period < 2 ^ 63 \<and> 1 \<le> signal_period \<and> signal_period < 2 ^ 63 \<longrightarrow>
      add_sma c period column = Inl (NameError ''go'') \<and>
      add_ema c period column = Inl (NameError ''go'') \<and>
      add_rsi c period column = Inl (NameError ''go'') \<and>
      add_macd c fast_period slow_period signal_period column = Inl (NameError ''go'') \<and>
      add_bollinger_bands c period std_dev column = Inl (NameError ''go'')) \<and>
   (add_sma c period column = Inl (NameError ''go'') \<or>
    add_ema c period column = Inl (NameError ''go'') \<or>
    add_rsi c period column = Inl (NameError ''go'') \<or>
    add_macd c fast_period slow_period signal_period column = Inl (NameError ''go'') \<or>
    add_bollinger_bands c period std_dev column = Inl (NameError ''go'') \<longrightarrow>
      truthy (fig c))"
proof (cases "fig c")
  case None
  then show ?thesis
    by (simp add: add_sma_def add_ema_def add_rsi_def add_macd_def add_bollinger_bands_def
          truthy_def)
next
  case (Some f)
  then have t: "truthy (fig c)" by (simp add: truthy_def)
  note 1 = raises_when_reached [OF add_sma_with_fig [OF Some, of period column]]
  note 2 = raises_when_reached [OF add_ema_with_fig [OF Some, of period column]]
  note 3 = raises_when_reached [OF add_rsi_with_fig [OF Some, of period column]]
  note 4 = raises_when_reached
    [OF add_macd_with_fig [OF Some, of fast_period slow_period signal_period column]]
  note 5 = raises_when_reached [OF add_bollinger_bands_with_fig [OF Some, of period std_dev column]]
  have never: "(\<forall>c'. add_sma c period column \<noteq> Inr c') \<and>
      (\<forall>c'. add_ema c period column \<noteq> Inr c') \<and>
      (\<forall>c'. add_rsi c period column \<noteq> Inr c') \<and>
      (\<forall>c'. add_macd c fast_period slow_period signal_period column \<noteq> Inr c') \<and>
      (\<forall>c'. add_bollinger_bands c period std_dev column \<noteq> Inr c')"
    using 1 2 3 4 5 by blast
  have reached: "add_sma c period column = Inl (NameError ''go'') \<and>
      add_ema c period column = Inl (NameError ''go'') \<and>
      add_rsi c period column = Inl (NameError ''go'') \<and>
      add_macd c fast_period slow_period signal_period column = Inl (NameError ''go'') \<and>
      add_bollinger_bands c period std_dev column = Inl (NameError ''go'')"
    if a: "column \<in> fst ` set (columns (data c))"
      "1 \<le> period" "period < 2 ^ 63" "1 \<le> fast_period" "fast_period < 2 ^ 63"
      "1 \<le> slow_period" "slow_period < 2 ^ 63" "1 \<le> signal_period" "signal_period < 2 ^ 63"
    using 1 2 3 4 5
      sma_series_returns [OF a(1) a(2) a(3)] ema_series_returns [OF a(1) a(2) a(3)]
      rsi_series_returns [OF a(1) a(2) a(3)]
      bollinger_series_returns [OF a(1) a(2) a(3), of std_dev]
      macd_series_returns [OF a(1) a(4) a(5) a(6) a(7) a(8) a(9)]
    by blast
  from t Some never reached show ?thesis by simp
qed

theorem indicators_raise_name_error_witness:
  "add_sma \<lparr>data = \<lparr>index = RangeIndex 2, columns = [(''Close'', [Some 1, Some 2])]\<rparr>,
            title = None, fig = Some go_Figure\<rparr> 20 ''Close'' = Inl (NameError ''go'') \<and>
   add_macd \<lparr>data = \<lparr>index = RangeIndex 2, columns = [(''Close'', [Some 1, Some 2])]\<rparr>,
             title = None, fig = Some go_Figure\<rparr> 12 26 9 ''Close'' = Inl (NameError ''go'')"
  using indicators_raise_name_error
    [of "\<lparr>data = \<lparr>index = RangeIndex 2, columns = [(''Close'', [Some 1, Some 2])]\<rparr>,
          title = None, fig = Some go_Figure\<rparr>" 20 "''Close''" 12 26 9 2]
  by (simp add: truthy_def)

text \<open>
  C1 as stated does not hold for every chart with a figure: a chart whose data has the
  columns \<open>fpr\<close> and \<open>tpr\<close>, as \<open>plot_roc_curve\<close> builds it, has no column \<open>Close\<close>, and
  \<open>add_sma\<close> with its default arguments stops at line 26 with \<open>KeyError\<close>. The plotting call
  is not reached and no \<open>NameError\<close> is raised, although \<open>fig\<close> is not \<open>None\<close> and truthy.
\<close>

theorem name_error_iff_truthy_counterexample:
  "fig \<lparr>data = \<lparr>index = RangeIndex 2,
                columns = [(''fpr'', [Some 0, Some 1]), (''tpr'', [Some 0, Some 1])]\<rparr>,
        title = None, fig = Some go_Figure\<rparr> \<noteq> None \<and>
   truthy (fig \<lparr>data = \<lparr>index = RangeIndex 2,
                        columns = [(''fpr'', [Some 0, Some 1]), (''tpr'', [Some 0, Some 1])]\<rparr>,
                title = None, fig = Some go_Figure\<rparr>) \<and>
   add_sma \<lparr>data = \<lparr>index = RangeIndex 2,
                    columns = [(''fpr'', [Some 0, Some 1]), (''tpr'', [Some 0, Some 1])]\<rparr>,
            title = None, fig = Some go_Figure\<rparr> 20 ''Close'' = Inl (KeyError ''Close'') \<and>
   add_sma \<lparr>data = \<lparr>index = RangeIndex 2,
                    columns = [(''fpr'', [Some 0, Some 1]), (''tpr'', [Some 0, Some 1])]\<rparr>,
            title = None, fig = Some go_Figure\<rparr> 20 ''Close'' \<noteq> Inl (NameError ''go'')"
  by (simp add: add_sma_def truthy_def sma_series_def getitem_def)

end
